theory Spec2Isabelle
  imports Main "HOL-Library.Word" "HOL-Library.Monad_Syntax" "HOL-Library.Sublist"
begin

unbundle bit_operations_syntax

section \<open>The output buffer\<close>

text \<open>
  \<^verbatim>\<open>OutputFormatHelper\<close> is declared in a header that is not part of
  \<^verbatim>\<open>CodeGenerator.cpp\<close>. The generator only ever talks to it through a handful of
  member functions, so a buffer is modelled as the sequence of calls made on it, in order.
  A variadic \<^verbatim>\<open>Append(a, b, c)\<close> is recorded as one \<open>Append\<close> of the concatenated
  arguments, \<^verbatim>\<open>AppendNewLine()\<close> without arguments as \<open>AppendNewLine []\<close>. How the
  calls are rendered (indentation, line breaks) is the helper's business and is not modelled.
  \<^verbatim>\<open>TODO(node, buffer)\<close>, the placeholder macro for unsupported nodes, is recorded as
  the call \<open>TODO\<close>.
\<close>

datatype NoNewLineBefore = NoNewLineBefore_No | NoNewLineBefore_Yes

datatype ofh_call =
    Append string
  | AppendNewLine string
  | OpenScope
  | CloseScope NoNewLineBefore
  | CloseScopeWithSemi
  | IncreaseIndent
  | DecreaseIndent
  | TODO

type_synonym OutputFormatHelper = "ofh_call list"

section \<open>Character literals\<close>

datatype CharacterKind = Ascii | Wide | UTF8 | UTF16 | UTF32

record CharacterLiteral =
  cl_kind :: CharacterKind
  cl_value :: "32 word"

text \<open>
  \<^verbatim>\<open>isPrintable\<close> comes from clang's character tables and is a parameter of the
  model. \<open>isPrintable_ascii\<close> is the table's content for reference: the 95 printable
  ASCII characters.
\<close>

definition isPrintable_ascii :: "8 word \<Rightarrow> bool" where
  "isPrintable_ascii c = (0x20 \<le> c \<and> c \<le> 0x7E)"

definition kind_prefix :: "CharacterKind \<Rightarrow> OutputFormatHelper \<Rightarrow> OutputFormatHelper" where
  "kind_prefix k out =
     (case k of
        Ascii \<Rightarrow> out
      | Wide \<Rightarrow> out @ [Append ''L'']
      | UTF8 \<Rightarrow> out @ [Append ''u8'']
      | UTF16 \<Rightarrow> out @ [Append ''u'']
      | UTF32 \<Rightarrow> out @ [Append ''U''])"

text \<open>
  The second \<^verbatim>\<open>switch\<close> of \<^verbatim>\<open>HandleCharacterLiteral\<close>: the escape cases in
  source order, then the \<^verbatim>\<open>default\<close> branch with its masking of sign-extended
  narrow character values.
\<close>

definition HandleCharacterLiteral ::
  "(8 word \<Rightarrow> bool) \<Rightarrow> CharacterLiteral \<Rightarrow> OutputFormatHelper \<Rightarrow> OutputFormatHelper" where
  "HandleCharacterLiteral isPrintable stmt out0 =
     (let out = kind_prefix (cl_kind stmt) out0;
          value = cl_value stmt
      in if value = 0x5C then out @ [Append [CHR 0x27, CHR 0x5C, CHR 0x5C, CHR 0x27]]
         else if value = 0 then out @ [Append [CHR 0x27, CHR 0x5C, CHR ''0'', CHR 0x27]]
         else if value = 0x27 then out @ [Append [CHR 0x27, CHR 0x5C, CHR 0x27, CHR 0x27]]
         else if value = 7 then out @ [Append [CHR 0x27, CHR 0x5C, CHR ''a'', CHR 0x27]]
         else if value = 8 then out @ [Append [CHR 0x27, CHR 0x5C, CHR ''b'', CHR 0x27]]
         else if value = 0xC then out @ [Append [CHR 0x27, CHR 0x5C, CHR ''f'', CHR 0x27]]
         else if value = 0xA then out @ [Append [CHR 0x27, CHR 0x5C, CHR ''n'', CHR 0x27]]
         else if value = 0xD then out @ [Append [CHR 0x27, CHR 0x5C, CHR ''r'', CHR 0x27]]
         else if value = 9 then out @ [Append [CHR 0x27, CHR 0x5C, CHR ''t'', CHR 0x27]]
         else if value = 0xB then out @ [Append [CHR 0x27, CHR 0x5C, CHR ''v'', CHR 0x27]]
         else
           (let value' = (if (value AND NOT 0xFF) = NOT 0xFF \<and> cl_kind stmt = Ascii
                          then value AND 0xFF else value)
            in if value' < 256 \<and> isPrintable (ucast value')
               then out @ [Append ([CHR 0x27] @ [char_of (unat value')] @ [CHR 0x27])]
               else out))"

section \<open>The lambda scope stack\<close>

text \<open>
  Modelled from the spec: \<^verbatim>\<open>LambdaCallerType\<close>, \<^verbatim>\<open>LambdaHelper\<close> and
  \<^verbatim>\<open>LambdaStackType\<close> are declared in \<^verbatim>\<open>CodeGenerator.h\<close>, which is not among
  the sources. The spec's Lambda Context Record has a classification of the syntactic position
  that triggered lowering, a handle to the output buffer destined to hold the synthesized class
  definition, and the accumulated constructor-argument initializer text. The caller types are
  the seven names that \<^verbatim>\<open>CodeGenerator.cpp\<close> uses. Buffers are objects shared by
  reference, so a buffer is identified by its address (a \<open>nat\<close>). The stack is a list with
  the oldest (outermost) entry first: \<^verbatim>\<open>push\<close> appends at the end, \<^verbatim>\<open>back()\<close>
  is the last element, and iteration runs from the outermost entry inwards, as the comment
  in \<^verbatim>\<open>GetBuffer\<close> (find the most outer element) and the spec (scanning outward-in) say.
\<close>

datatype LambdaCallerType =
    LCT_VarDecl
  | LCT_CallExpr
  | LCT_OperatorCallExpr
  | LCT_MemberCallExpr
  | LCT_LambdaExpr
  | LCT_ReturnStmt
  | LCT_BinaryOperator

type_synonym buffer_ref = nat

record LambdaHelper =
  callerType :: LambdaCallerType
  buffer :: buffer_ref
  inits :: string

type_synonym LambdaStackType = "LambdaHelper list"

text \<open>The loop of the lambda inside \<^verbatim>\<open>GetBuffer\<close>, with its six returning cases.\<close>

fun GetBuffer_element :: "LambdaStackType \<Rightarrow> LambdaHelper option" where
  "GetBuffer_element [] = None"
| "GetBuffer_element (l # ls) =
     (case callerType l of
        LCT_CallExpr \<Rightarrow> Some l
      | LCT_VarDecl \<Rightarrow> Some l
      | LCT_ReturnStmt \<Rightarrow> Some l
      | LCT_OperatorCallExpr \<Rightarrow> Some l
      | LCT_MemberCallExpr \<Rightarrow> Some l
      | LCT_BinaryOperator \<Rightarrow> Some l
      | _ \<Rightarrow> GetBuffer_element ls)"

definition GetBuffer :: "LambdaStackType \<Rightarrow> buffer_ref \<Rightarrow> buffer_ref" where
  "GetBuffer mStack outputFormatHelper =
     (case GetBuffer_element mStack of
        Some element \<Rightarrow> buffer element
      | None \<Rightarrow> outputFormatHelper)"

text \<open>
  The constructor of \<^verbatim>\<open>LambdaScopeHandler\<close> (what \<^verbatim>\<open>LAMBDA_SCOPE_HELPER(type)\<close>
  runs): the new helper gets the buffer that \<^verbatim>\<open>GetBuffer\<close> finds on the stack as it
  is before the push.
\<close>

definition LambdaScopeHandler ::
  "LambdaStackType \<Rightarrow> buffer_ref \<Rightarrow> LambdaCallerType \<Rightarrow> LambdaStackType" where
  "LambdaScopeHandler stack outputFormatHelper lambdaCallerType =
     stack @ [\<lparr>callerType = lambdaCallerType,
               buffer = GetBuffer stack outputFormatHelper,
               inits = []\<rparr>]"

text \<open>
  \<^verbatim>\<open>InsertArg(const LambdaExpr*)\<close> hands \<^verbatim>\<open>HandleLambdaExpr\<close> the helper at the
  back of the stack, after pushing a \<^verbatim>\<open>LambdaExpr\<close> helper when the stack is empty;
  \<^verbatim>\<open>HandleLambdaExpr\<close> writes the class into that helper's buffer.
\<close>

definition InsertArg_LambdaExpr_helper :: "LambdaStackType \<Rightarrow> buffer_ref \<Rightarrow> LambdaHelper" where
  "InsertArg_LambdaExpr_helper mLambdaStack mOutputFormatHelper =
     (if mLambdaStack \<noteq> [] then last mLambdaStack
      else last (LambdaScopeHandler mLambdaStack mOutputFormatHelper LCT_LambdaExpr))"

definition HandleLambdaExpr_outputFormatHelper :: "LambdaHelper \<Rightarrow> buffer_ref" where
  "HandleLambdaExpr_outputFormatHelper lambdaHelper = buffer lambdaHelper"

text \<open>The placement-anchoring kinds, as the claim lists them.\<close>

definition anchoring :: "LambdaCallerType set" where
  "anchoring = {LCT_CallExpr, LCT_VarDecl, LCT_ReturnStmt, LCT_OperatorCallExpr,
                LCT_MemberCallExpr, LCT_BinaryOperator}"

section \<open>Lowering a lambda expression to a class\<close>

text \<open>
  What \<^verbatim>\<open>HandleLambdaExpr\<close> reads from clang about a lambda and its captures. A capture
  carries the answers of \<^verbatim>\<open>LambdaCapture\<close>, the type and name of the captured variable,
  the type of the capture's initializer (used for \<^verbatim>\<open>this\<close> captures) and the text that a
  fresh generator writes for the initializer. A type is its printed name (\<^verbatim>\<open>GetName\<close>)
  with the two tests the function makes on it. \<open>methods\<close> stands for the calls that the
  \<^verbatim>\<open>InsertMethod\<close> part of the function (call operator, conversion operators, static
  invoker) makes on the buffer; their content depends on helpers outside this file.
\<close>

datatype LambdaCaptureKind = LCK_This | LCK_StarThis | LCK_ByCopy | LCK_ByRef | LCK_VLAType

record CaptureType =
  ct_name :: string
  ct_isReferenceType :: bool
  ct_isArrayType :: bool

record LambdaCapture =
  capturesVariable :: bool
  capturesThis :: bool
  capturesVLAType :: bool
  getCaptureKind :: LambdaCaptureKind
  capturedVar_type :: CaptureType
  capturedVar_name :: string
  capturedVar_hasInit :: bool
  captureInit_type :: CaptureType
  captureInit_text :: string

record LambdaExprInfo =
  lambdaTypeName :: string
  lambdaName :: string
  methods :: OutputFormatHelper
  captures :: "LambdaCapture list"

text \<open>The keyword constant of \<^verbatim>\<open>InsightsStrCat.h\<close>, named after its content.\<close>

definition kwClassSpace :: string where
  "kwClassSpace = ''class ''"

text \<open>
  Modelled from the spec: \<^verbatim>\<open>InsertBefore\<close> is a string helper outside this file. The
  spec has array captures use a parenthesized-declarator rewrite, \<open>(&name)\<close> placed in
  front of the array bounds: the text is inserted before the first occurrence of the search
  string, and the source is left alone when the search string does not occur.
\<close>

fun InsertBefore :: "string \<Rightarrow> string \<Rightarrow> string \<Rightarrow> string" where
  "InsertBefore [] needle insertion = (if needle = [] then insertion else [])"
| "InsertBefore (c # cs) needle insertion =
     (if prefix needle (c # cs) then insertion @ c # cs else c # InsertBefore cs needle insertion)"

definition GetCaptureTypeNameAsParameter :: "CaptureType \<Rightarrow> string \<Rightarrow> string" where
  "GetCaptureTypeNameAsParameter t varName =
     (let typeName = ct_name t
      in if ct_isArrayType t then InsertBefore typeName ''['' (''(&'' @ varName @ '')'')
         else typeName)"

text \<open>
  The local variables of the capture loop, and one iteration of it. The loop's
  \<^verbatim>\<open>continue\<close> for captures that are neither a variable nor \<^verbatim>\<open>this\<close> is the
  first branch.
\<close>

record capture_loop =
  cs_first :: bool
  cs_ctorRequired :: bool
  cs_ctor :: string
  cs_ctorInits :: string
  cs_inits :: string
  cs_buffer :: OutputFormatHelper
  cs_errors :: "string list"

definition capture_step :: "LambdaCapture \<Rightarrow> capture_loop \<Rightarrow> capture_loop" where
  "capture_step c s0 =
     (let s = s0\<lparr>cs_ctorRequired := True\<rparr>
      in if \<not> capturesVariable c \<and> \<not> capturesThis c
         then (if \<not> capturesVLAType c
               then s\<lparr>cs_errors := cs_errors s @ [''no capture var'' @ [CHR 0x0A]]\<rparr>
               else s)
         else
           (let s = (if cs_first s
                     then s\<lparr>cs_first := False, cs_buffer := cs_buffer s @ [AppendNewLine []]\<rparr>
                     else s\<lparr>cs_ctor := cs_ctor s @ '', '',
                            cs_inits := cs_inits s @ '', '',
                            cs_ctorInits := cs_ctorInits s @ [CHR 0x0A] @ '', ''\<rparr>);
                varType = (if capturesThis c then captureInit_type c else capturedVar_type c);
                varNamePlain = (if capturesThis c then ''this'' else capturedVar_name c);
                varName = (if capturesThis c then ''__'' @ varNamePlain else varNamePlain);
                varTypeName = GetCaptureTypeNameAsParameter varType varNamePlain;
                ctorVarTypeName = GetCaptureTypeNameAsParameter varType (''_'' @ varNamePlain);
                s = s\<lparr>cs_ctor := cs_ctor s @ ctorVarTypeName\<rparr>;
                s = s\<lparr>cs_buffer := cs_buffer s @ [Append varTypeName]\<rparr>;
                captureKind = getCaptureKind c;
                s = (case captureKind of
                       LCK_This \<Rightarrow> s
                     | LCK_StarThis \<Rightarrow> s
                     | LCK_ByCopy \<Rightarrow> s
                     | LCK_VLAType \<Rightarrow> s
                     | LCK_ByRef \<Rightarrow>
                         if \<not> ct_isReferenceType varType \<and> \<not> ct_isArrayType varType
                         then s\<lparr>cs_ctor := cs_ctor s @ ''&'',
                                cs_buffer := cs_buffer s @ [Append ''&'']\<rparr>
                         else s);
                s = (if \<not> capturesThis c \<and> capturedVar_hasInit c \<and> captureKind = LCK_ByCopy
                     then s\<lparr>cs_inits := cs_inits s @ captureInit_text c\<rparr>
                     else s\<lparr>cs_inits := cs_inits s
                              @ (if getCaptureKind c = LCK_StarThis then ''*'' else '''')
                              @ varNamePlain\<rparr>);
                s = (if \<not> ct_isArrayType varType
                     then s\<lparr>cs_ctor := cs_ctor s @ '' _'' @ varName,
                            cs_buffer := cs_buffer s @ [AppendNewLine ('' '' @ varName @ '';'')]\<rparr>
                     else s\<lparr>cs_buffer := cs_buffer s @ [AppendNewLine '';'']\<rparr>)
            in s\<lparr>cs_ctorInits := cs_ctorInits s @ varName @ ''{_'' @ varName @ ''}''\<rparr>))"

text \<open>
  \<^verbatim>\<open>HandleLambdaExpr\<close> writes to the buffer of the helper it is given and, for the caller
  types \<^verbatim>\<open>VarDecl\<close> and \<^verbatim>\<open>CallExpr\<close>, appends the construction text to the
  initializer string of the helper at the back of the stack.
\<close>

record lambda_result =
  lr_buffer :: OutputFormatHelper
  lr_back_inits :: string
  lr_errors :: "string list"

definition HandleLambdaExpr ::
  "LambdaExprInfo \<Rightarrow> LambdaCallerType \<Rightarrow> OutputFormatHelper \<Rightarrow> string \<Rightarrow> lambda_result" where
  "HandleLambdaExpr lambda lambdaCallerType outputFormatHelper back_inits =
     (let out = outputFormatHelper @ [AppendNewLine []];
          out = out @ [AppendNewLine (kwClassSpace @ lambdaTypeName lambda)];
          out = out @ [OpenScope];
          out = out @ methods lambda;
          out = (if 0 \<noteq> length (captures lambda)
                 then out @ [AppendNewLine [], Append ''private:'']
                 else out);
          s = fold capture_step (captures lambda)
                \<lparr>cs_first = True, cs_ctorRequired = False,
                 cs_ctor = ''public: '' @ lambdaTypeName lambda @ ''('',
                 cs_ctorInits = '': '', cs_inits = ''{'',
                 cs_buffer = out, cs_errors = []\<rparr>;
          ctor = cs_ctor s @ '')'';
          inits = cs_inits s @ ''}'';
          out = (if cs_ctorRequired s
                 then cs_buffer s @ [AppendNewLine [], AppendNewLine ctor,
                                     AppendNewLine (cs_ctorInits s), AppendNewLine ''{}'']
                 else cs_buffer s);
          out = out @ [CloseScope NoNewLineBefore_No]
      in if lambdaCallerType \<noteq> LCT_VarDecl \<and> lambdaCallerType \<noteq> LCT_CallExpr
         then \<lparr>lr_buffer = out @ [Append ('' '' @ lambdaName lambda @ inits)]
                              @ [AppendNewLine '';'', AppendNewLine []],
               lr_back_inits = back_inits, lr_errors = cs_errors s\<rparr>
         else \<lparr>lr_buffer = out @ [AppendNewLine '';'', AppendNewLine []],
               lr_back_inits = back_inits @ inits, lr_errors = cs_errors s\<rparr>)"

section \<open>The syntax tree\<close>

text \<open>
  The generator reads a clang syntax tree. The model covers the node kinds listed below, with
  the attributes the lowering routines read from them. What clang, the name helpers
  (\<^verbatim>\<open>GetName\<close>, \<^verbatim>\<open>GetPlainName\<close>, \<^verbatim>\<open>GetTypeNameAsParameter\<close>) and the
  predicates outside this file (\<^verbatim>\<open>IsTrivialStaticClassVarDecl\<close>) compute from a node is
  an attribute of the node: \<open>vd_typeNameAsParameter\<close> is the declarator text for a given
  variable name, \<open>vd_isTrivialStaticClassVarDecl\<close> says that the variable is a
  function-local static of non-trivial class type, \<open>vd_recordName\<close> is the name of that
  class, \<open>vd_isReference\<close> is the result of \<^verbatim>\<open>IsReference\<close>. A child that clang
  allows to be absent is a \<open>stmt option\<close>, with \<open>None\<close> for the null pointer; a child
  that is always present is a \<open>stmt\<close>. Outside the fragment are: template arguments,
  user-defined literals, member expressions that name a method, implicit casts of the kinds
  that are printed as casts, and lambda expressions, whose class is modelled above.
  \<open>UnsupportedStmt\<close> and \<open>UnsupportedDecl\<close> stand for the node kinds that have no
  lowering routine. A variable declaration is a decomposition declaration when it has a list
  of bindings. A binding has its binding expression, if any, and the initializer of its
  holding variable, if it has a holding variable. A \<^verbatim>\<open>for\<close> and a \<^verbatim>\<open>while\<close>
  statement carry the slot of the declaration statement of their condition variable, which
  their routines do not read. The range, begin and end statements of a range-based
  \<^verbatim>\<open>for\<close> statement are pointers to declaration statements; clang leaves the begin and
  end statements null while the range is type-dependent.
\<close>

datatype BuiltinKind =
    BT_Bool | BT_Char_U | BT_UChar | BT_Char16 | BT_Char32 | BT_UShort | BT_UInt | BT_ULong
  | BT_ULongLong | BT_UInt128 | BT_Char_S | BT_SChar | BT_Short | BT_Int | BT_Long
  | BT_LongLong | BT_Int128 | BT_Float | BT_Double | BT_LongDouble | BT_WChar_S | BT_WChar_U
  | BT_Other

datatype StorageClass = SC_None | SC_Extern | SC_Static | SC_PrivateExtern | SC_Auto | SC_Register

record SourceLocation =
  loc_line :: nat
  loc_column :: nat

record DeclRefInfo =
  dre_name :: string
  dre_plainName :: string
  dre_hasDecl :: bool

record VarDeclInfo =
  vd_name :: string
  vd_typeName :: string
  vd_typeNameAsParameter :: "string \<Rightarrow> string"
  vd_isInline :: bool
  vd_storageClass :: StorageClass
  vd_isConstexpr :: bool
  vd_isFunctionPointerType :: bool
  vd_locStart :: SourceLocation
  vd_isNRVOVariable :: bool
  vd_isReference :: bool
  vd_isTrivialStaticClassVarDecl :: bool
  vd_recordName :: string

record BindingDeclInfo =
  bd_typeName :: string
  bd_name :: string

datatype stmt =
    DeclRefExpr DeclRefInfo
  | IntegerLiteral string "BuiltinKind option"
  | CharacterLiteralExpr CharacterLiteral
  | CXXBoolLiteralExpr bool
  | CXXNullPtrLiteralExpr
  | GNUNullExpr
  | CXXThisExpr
  | StringLiteral string
  | ArrayInitIndexExpr
  | UnaryOperator string bool stmt
  | BinaryOperator stmt string stmt
  | ConditionalOperator stmt stmt stmt
  | ArraySubscriptExpr stmt stmt
  | ParenExpr stmt
  | MemberExpr stmt bool string
  | ImplicitCastExpr stmt
  | ExprWithCleanups stmt
  | MaterializeTemporaryExpr stmt
  | CXXBindTemporaryExpr stmt
  | OpaqueValueExpr stmt
  | InitListExpr "stmt list"
  | ArrayInitLoopExpr nat stmt stmt
  | CallExpr stmt "stmt list"
  | CXXMemberCallExpr stmt "stmt list"
  | NullStmt
  | BreakStmt
  | CompoundStmt "stmt list"
  | DeclStmt "decl list"
  | ReturnStmt "stmt option"
  | IfStmt bool "stmt option" "var_decl option" stmt stmt "stmt option"
  | ForStmt "stmt option" "stmt option" "stmt option" "stmt option" stmt
  | WhileStmt "stmt option" stmt stmt
  | DoStmt stmt stmt
  | CXXForRangeStmt "decl list option" "decl list option" "decl list option"
      "stmt option" "stmt option" var_decl stmt
  | UnsupportedStmt "stmt option list"
and var_decl = VarDecl (vd_info: VarDeclInfo) (getInit: "stmt option") (decomposition: "binding list option")
and decl = Decl_VarDecl var_decl | UnsupportedDecl
and binding = BindingDecl (bd_info: BindingDeclInfo) (getBinding: "stmt option") (getHoldingVar: "stmt option option")

section \<open>Helpers of the generator\<close>

text \<open>
  The state a generator object works on: the calls made so far on its
  \<^verbatim>\<open>mOutputFormatHelper\<close> and the messages handed to \<^verbatim>\<open>Error\<close>, the diagnostic
  channel. A routine returns \<open>None\<close> when it dereferences a null pointer, which ends the
  run, and the new state otherwise.
\<close>

record gen_state =
  written :: OutputFormatHelper
  reported :: "string list"

definition call :: "ofh_call \<Rightarrow> gen_state \<Rightarrow> gen_state option" where
  "call c st = Some (st\<lparr>written := written st @ [c]\<rparr>)"

definition Error :: "string \<Rightarrow> gen_state \<Rightarrow> gen_state option" where
  "Error msg st = Some (st\<lparr>reported := reported st @ [msg]\<rparr>)"

text \<open>
  The three generator classes of the file. \<^verbatim>\<open>InsertArg\<close> is virtual, so a routine
  running in a derived generator sees the overrides of that generator in all its recursive
  calls.
\<close>

datatype CodeGeneratorKind =
    CodeGenerator
  | ArrayInitCodeGenerator nat
  | StructuredBindingsCodeGenerator string

text \<open>
  Functions that live outside this file and are taken as parameters: clang's
  \<^verbatim>\<open>isPrintable\<close>, the two overloads of \<^verbatim>\<open>BuildInternalVarName\<close>, and
  the sequence of numbers that a \<^verbatim>\<open>NumberIterator\<close> runs through.
\<close>

record helpers =
  isPrintable :: "8 word \<Rightarrow> bool"
  BuildInternalVarName :: "string \<Rightarrow> string"
  BuildInternalVarNameLoc :: "string \<Rightarrow> SourceLocation \<Rightarrow> string"
  NumberIterator :: "nat \<Rightarrow> nat list"

text \<open>\<^verbatim>\<open>std::to_string\<close> on an unsigned number: its decimal digits.\<close>

fun to_string :: "nat \<Rightarrow> string" where
  "to_string n =
     (if n < 10 then [char_of (48 + n)]
      else to_string (n div 10) @ [char_of (48 + n mod 10)])"

declare to_string.simps [simp del]

fun GetBuiltinTypeSuffix :: "BuiltinKind \<Rightarrow> string" where
  "GetBuiltinTypeSuffix BT_Bool = ''''"
| "GetBuiltinTypeSuffix BT_Char_U = ''''"
| "GetBuiltinTypeSuffix BT_UChar = ''''"
| "GetBuiltinTypeSuffix BT_Char16 = ''''"
| "GetBuiltinTypeSuffix BT_Char32 = ''''"
| "GetBuiltinTypeSuffix BT_UShort = ''''"
| "GetBuiltinTypeSuffix BT_UInt = ''u''"
| "GetBuiltinTypeSuffix BT_ULong = ''ul''"
| "GetBuiltinTypeSuffix BT_ULongLong = ''ull''"
| "GetBuiltinTypeSuffix BT_UInt128 = ''ulll''"
| "GetBuiltinTypeSuffix BT_Char_S = ''''"
| "GetBuiltinTypeSuffix BT_SChar = ''''"
| "GetBuiltinTypeSuffix BT_Short = ''''"
| "GetBuiltinTypeSuffix BT_Int = ''''"
| "GetBuiltinTypeSuffix BT_Long = ''l''"
| "GetBuiltinTypeSuffix BT_LongLong = ''ll''"
| "GetBuiltinTypeSuffix BT_Int128 = ''''"
| "GetBuiltinTypeSuffix BT_Float = ''f''"
| "GetBuiltinTypeSuffix BT_Double = ''''"
| "GetBuiltinTypeSuffix BT_LongDouble = ''L''"
| "GetBuiltinTypeSuffix BT_WChar_S = ''''"
| "GetBuiltinTypeSuffix BT_WChar_U = ''''"
| "GetBuiltinTypeSuffix BT_Other = ''''"

definition InsertSuffix :: "BuiltinKind option \<Rightarrow> gen_state \<Rightarrow> gen_state option" where
  "InsertSuffix type st =
     (case type of
        Some kind \<Rightarrow> call (Append (GetBuiltinTypeSuffix kind)) st
      | None \<Rightarrow> Some st)"

definition GetQualifiers :: "VarDeclInfo \<Rightarrow> string" where
  "GetQualifiers vd =
     (let qualifiers = [];
          qualifiers = (if vd_isInline vd then qualifiers @ ''inline '' else qualifiers);
          qualifiers = (if SC_Extern = vd_storageClass vd then qualifiers @ ''extern ''
                        else qualifiers);
          qualifiers = (if SC_Static = vd_storageClass vd then qualifiers @ ''static ''
                        else qualifiers);
          qualifiers = (if vd_isConstexpr vd then qualifiers @ ''constexpr '' else qualifiers)
      in qualifiers)"

text \<open>Loops over child lists: a plain loop, and the loop of \<^verbatim>\<open>ForEachArg\<close>.\<close>

fun for_each :: "('a \<Rightarrow> gen_state \<Rightarrow> gen_state option) \<Rightarrow> 'a list \<Rightarrow> gen_state \<Rightarrow> gen_state option" where
  "for_each f [] st = Some st"
| "for_each f (x # xs) st = Option.bind (f x st) (for_each f xs)"

lemma for_each_cong [fundef_cong]:
  "xs = ys \<Longrightarrow> st = st' \<Longrightarrow> (\<And>x s. x \<in> set ys \<Longrightarrow> f x s = g x s) \<Longrightarrow>
   for_each f xs st = for_each g ys st'"
proof (induction ys arbitrary: xs st st')
  case Nil
  then show ?case by simp
next
  case (Cons y ys)
  have "for_each f ys = for_each g ys"
    by (rule ext) (rule Cons.IH, simp, simp, simp add: Cons.prems)
  with Cons.prems show ?case by simp
qed

text \<open>
  Modelled from the spec: \<^verbatim>\<open>ForEachArg\<close> is a template of \<^verbatim>\<open>CodeGenerator.h\<close>.
  It runs the given function on the arguments in source order; the spec's rendering of
  argument lists, \<open>operator(a, b)\<close>, has a comma and a space between two arguments.
\<close>

fun ForEachArg :: "('a \<Rightarrow> gen_state \<Rightarrow> gen_state option) \<Rightarrow> 'a list \<Rightarrow> gen_state \<Rightarrow> gen_state option" where
  "ForEachArg f [] st = Some st"
| "ForEachArg f (x # xs) st =
     Option.bind (f x st) (for_each (\<lambda>a st. Option.bind (call (Append '', '') st) (f a)) xs)"

lemma ForEachArg_cong [fundef_cong]:
  "xs = ys \<Longrightarrow> st = st' \<Longrightarrow> (\<And>x s. x \<in> set ys \<Longrightarrow> f x s = g x s) \<Longrightarrow>
   ForEachArg f xs st = ForEachArg g ys st'"
proof (cases ys)
  case Nil
  assume "xs = ys" "st = st'"
  with Nil show ?thesis by simp
next
  case (Cons y zs)
  assume a: "xs = ys" "st = st'" and b: "\<And>x s. x \<in> set ys \<Longrightarrow> f x s = g x s"
  have "for_each (\<lambda>a st. Option.bind (call (Append '', '') st) (f a)) zs
      = for_each (\<lambda>a st. Option.bind (call (Append '', '') st) (g a)) zs"
    by (rule ext) (rule for_each_cong, simp, simp, rule Option.bind_cong, simp,
        simp add: b Cons)
  with a b Cons show ?thesis by simp
qed

datatype BraceKind = Parens | Curlys

datatype AddSpaceAtTheEnd = AddSpaceAtTheEnd_No | AddSpaceAtTheEnd_Yes

definition WrapInParensOrCurlys ::
  "BraceKind \<Rightarrow> (gen_state \<Rightarrow> gen_state option) \<Rightarrow> AddSpaceAtTheEnd \<Rightarrow> gen_state \<Rightarrow> gen_state option" where
  "WrapInParensOrCurlys braceKind lambda addSpaceAtTheEnd st =
     do {
       st \<leftarrow> (if Curlys = braceKind then call (Append ''{'') st else call (Append ''('') st);
       st \<leftarrow> lambda st;
       st \<leftarrow> (if Curlys = braceKind then call (Append ''}'') st else call (Append '')'') st);
       if AddSpaceAtTheEnd_Yes = addSpaceAtTheEnd then call (Append '' '') st else Some st
     }"

lemma WrapInParensOrCurlys_cong [fundef_cong]:
  "(\<And>s. f s = g s) \<Longrightarrow> WrapInParensOrCurlys bk f sp st = WrapInParensOrCurlys bk g sp st"
  by (simp add: WrapInParensOrCurlys_def)

text \<open>The null check at the head of \<^verbatim>\<open>InsertArg(const Stmt*)\<close>.\<close>

definition null_checked ::
  "(stmt \<Rightarrow> gen_state \<Rightarrow> gen_state option) \<Rightarrow> stmt option \<Rightarrow> gen_state \<Rightarrow> gen_state option" where
  "null_checked f stmt st = (case stmt of None \<Rightarrow> Some st | Some s \<Rightarrow> f s st)"

lemma null_checked_cong [fundef_cong]:
  "stmt = stmt' \<Longrightarrow> st = st' \<Longrightarrow> (\<And>s. stmt' = Some s \<Longrightarrow> f s st' = g s st') \<Longrightarrow>
   null_checked f stmt st = null_checked g stmt' st'"
  by (simp add: null_checked_def split: option.splits)

text \<open>The tests \<^verbatim>\<open>isa<T>(node)\<close> that the routines make on non-null nodes.\<close>

fun isa_CompoundStmt :: "stmt \<Rightarrow> bool" where
  "isa_CompoundStmt (CompoundStmt body) = True"
| "isa_CompoundStmt s = False"

fun isa_NullStmt :: "stmt \<Rightarrow> bool" where
  "isa_NullStmt NullStmt = True"
| "isa_NullStmt s = False"

fun isa_IfStmt :: "stmt \<Rightarrow> bool" where
  "isa_IfStmt (IfStmt cx i v c t e) = True"
| "isa_IfStmt s = False"

fun isa_ForStmt :: "stmt \<Rightarrow> bool" where
  "isa_ForStmt (ForStmt i v c n b) = True"
| "isa_ForStmt s = False"

fun isa_DeclStmt :: "stmt \<Rightarrow> bool" where
  "isa_DeclStmt (DeclStmt ds) = True"
| "isa_DeclStmt s = False"

fun isa_ExprWithCleanups :: "stmt \<Rightarrow> bool" where
  "isa_ExprWithCleanups (ExprWithCleanups e) = True"
| "isa_ExprWithCleanups s = False"

fun isa_ArraySubscriptExpr :: "stmt \<Rightarrow> bool" where
  "isa_ArraySubscriptExpr (ArraySubscriptExpr l r) = True"
| "isa_ArraySubscriptExpr s = False"

fun isa_MemberExpr :: "stmt \<Rightarrow> bool" where
  "isa_MemberExpr (MemberExpr b a n) = True"
| "isa_MemberExpr s = False"

text \<open>The statements of a compound statement, as \<^verbatim>\<open>dyn_cast<CompoundStmt>(s)->body()\<close>.\<close>

fun CompoundStmt_body :: "stmt \<Rightarrow> stmt list" where
  "CompoundStmt_body (CompoundStmt body) = body"
| "CompoundStmt_body s = []"

section \<open>Searching an initializer for a name\<close>

text \<open>
  \<^verbatim>\<open>Stmt::children()\<close> as \<^verbatim>\<open>FindDeclRef\<close> walks it: the child slots of a node in
  clang's order, absent children included as null pointers. The declarations of a
  \<^verbatim>\<open>DeclStmt\<close> contribute their initializers. Where a slot holds a declaration
  statement that the tree keeps as its declarations (the condition variable of an
  \<^verbatim>\<open>if\<close> statement, the loop variable and the range, begin and end statements of a
  range-based \<^verbatim>\<open>for\<close> statement), the search of that statement is the search of these
  initializers in turn, which stand here in its place; the null slot stays a null pointer. An
  \<^verbatim>\<open>OpaqueValueExpr\<close> has no children, so nothing is found in the common expression of
  an \<^verbatim>\<open>ArrayInitLoopExpr\<close>, which is left out of its children.
\<close>

fun VarDecl_init :: "var_decl \<Rightarrow> stmt option list" where
  "VarDecl_init (VarDecl v init bs) = (case init of None \<Rightarrow> [] | Some e \<Rightarrow> [Some e])"

fun decl_inits :: "decl \<Rightarrow> stmt option list" where
  "decl_inits (Decl_VarDecl vd) = VarDecl_init vd"
| "decl_inits UnsupportedDecl = []"

fun DeclStmt_slot :: "decl list option \<Rightarrow> stmt option list" where
  "DeclStmt_slot None = [None]"
| "DeclStmt_slot (Some ds) = concat (map decl_inits ds)"

fun children :: "stmt \<Rightarrow> stmt option list" where
  "children (UnaryOperator opc post s) = [Some s]"
| "children (BinaryOperator l opc r) = [Some l, Some r]"
| "children (ConditionalOperator c l r) = [Some c, Some l, Some r]"
| "children (ArraySubscriptExpr l r) = [Some l, Some r]"
| "children (ParenExpr s) = [Some s]"
| "children (MemberExpr b arrow n) = [Some b]"
| "children (ImplicitCastExpr s) = [Some s]"
| "children (ExprWithCleanups s) = [Some s]"
| "children (MaterializeTemporaryExpr s) = [Some s]"
| "children (CXXBindTemporaryExpr s) = [Some s]"
| "children (InitListExpr is) = map Some is"
| "children (ArrayInitLoopExpr n src sub) = [Some sub]"
| "children (CallExpr c as) = Some c # map Some as"
| "children (CXXMemberCallExpr c as) = Some c # map Some as"
| "children (CompoundStmt body) = map Some body"
| "children (DeclStmt ds) = concat (map decl_inits ds)"
| "children (ReturnStmt r) = (case r of None \<Rightarrow> [] | Some e \<Rightarrow> [Some e])"
| "children (IfStmt cx i v c t e) =
     [i] @ (case v of None \<Rightarrow> [None] | Some vd \<Rightarrow> VarDecl_init vd) @ [Some c, Some t, e]"
| "children (ForStmt i v c n b) = [i, v, c, n, Some b]"
| "children (WhileStmt v c b) = [v, Some c, Some b]"
| "children (DoStmt b c) = [Some b, Some c]"
| "children (CXXForRangeStmt r b e c i lv body) =
     DeclStmt_slot r @ DeclStmt_slot b @ DeclStmt_slot e @ [c, i] @ VarDecl_init lv @ [Some body]"
| "children (UnsupportedStmt cs) = cs"
| "children s = []"

lemma size_VarDecl_init:
  "Some c \<in> set (VarDecl_init vd) \<Longrightarrow> size c < size vd"
  by (cases vd) (auto split: option.splits)

lemma size_decl_inits:
  "Some c \<in> set (decl_inits d) \<Longrightarrow> size c < size d"
  by (cases d) (auto dest: size_VarDecl_init)

lemma size_decl_inits_list:
  "Some c \<in> set (concat (map decl_inits ds)) \<Longrightarrow> size c < size_list size ds"
  by (induction ds) (force dest: size_decl_inits)+

lemma size_DeclStmt_slot:
  "Some c \<in> set (DeclStmt_slot ds) \<Longrightarrow> size c < size_option (size_list size) ds"
proof (cases ds)
  case None
  assume "Some c \<in> set (DeclStmt_slot ds)"
  with None show ?thesis by simp
next
  case (Some a)
  assume "Some c \<in> set (DeclStmt_slot ds)"
  with Some have "Some c \<in> set (concat (map decl_inits a))" by simp
  from size_decl_inits_list [OF this] Some show ?thesis by simp
qed

lemma size_decl_member:
  "d \<in> set ds \<Longrightarrow> size (d::decl) \<le> size_list size ds"
  by (rule size_list_estimation') auto

lemma size_stmt_member:
  "c \<in> set xs \<Longrightarrow> size (c::stmt) \<le> size_list size xs"
  by (rule size_list_estimation') auto

lemma size_children:
  "Some c \<in> set (children s) \<Longrightarrow> size c < size s"
proof (cases s)
  case (InitListExpr x)
  assume "Some c \<in> set (children s)"
  with InitListExpr show ?thesis by (auto dest: size_stmt_member)
next
  case (CallExpr x1 x2)
  assume "Some c \<in> set (children s)"
  with CallExpr show ?thesis by (auto dest: size_stmt_member)
next
  case (CXXMemberCallExpr x1 x2)
  assume "Some c \<in> set (children s)"
  with CXXMemberCallExpr show ?thesis by (auto dest: size_stmt_member)
next
  case (CompoundStmt x)
  assume "Some c \<in> set (children s)"
  with CompoundStmt show ?thesis by (auto dest: size_stmt_member)
next
  case (DeclStmt x)
  assume "Some c \<in> set (children s)"
  with DeclStmt show ?thesis by (fastforce dest: size_decl_inits size_decl_member)
next
  case (IfStmt x1 x2 x3 x4 x5 x6)
  assume "Some c \<in> set (children s)"
  with IfStmt show ?thesis by (auto split: option.splits dest: size_VarDecl_init)
next
  case (CXXForRangeStmt x1 x2 x3 x4 x5 x6 x7)
  assume "Some c \<in> set (children s)"
  with CXXForRangeStmt show ?thesis
    by (auto dest: size_DeclStmt_slot size_VarDecl_init)
next
  case (UnsupportedStmt x)
  assume "Some c \<in> set (children s)"
  with UnsupportedStmt have "size_option size (Some c) \<le> size_list (size_option size) x"
    by (intro size_list_estimation') auto
  with UnsupportedStmt show ?thesis by simp
qed (auto split: option.splits)

text \<open>
  The loop of \<^verbatim>\<open>FindDeclRef\<close> over the children: the first child in which a reference
  is found ends the search. The result of a search is \<open>None\<close> when it dereferences a null
  pointer, \<open>Some None\<close> for \<^verbatim>\<open>nullptr\<close> and \<open>Some (Some d)\<close> for a reference.
\<close>

fun FindDeclRef_loop ::
  "('a \<Rightarrow> DeclRefInfo option option) \<Rightarrow> 'a list \<Rightarrow> DeclRefInfo option option" where
  "FindDeclRef_loop f [] = Some None"
| "FindDeclRef_loop f (child # cs) =
     (case f child of
        None \<Rightarrow> None
      | Some (Some childRef) \<Rightarrow> Some (Some childRef)
      | Some None \<Rightarrow> FindDeclRef_loop f cs)"

lemma FindDeclRef_loop_cong [fundef_cong]:
  "cs = cs' \<Longrightarrow> (\<And>c. c \<in> set cs' \<Longrightarrow> f c = g c) \<Longrightarrow>
   FindDeclRef_loop f cs = FindDeclRef_loop g cs'"
  by (induction cs' arbitrary: cs) (auto split: option.splits)

lemma FindDeclRef_measure:
  assumes mem: "c \<in> set (children stmt)"
  shows "(c, Some stmt) \<in> measure (\<lambda>p. case p of None \<Rightarrow> 0 | Some s \<Rightarrow> Suc (size s))"
proof (cases c)
  case None
  then show ?thesis by simp
next
  case (Some x)
  with mem have "size x < size stmt" by (simp add: size_children)
  with Some show ?thesis by simp
qed

text \<open>
  \<^verbatim>\<open>FindDeclRef\<close>. Both casts at its head accept a null pointer
  (\<^verbatim>\<open>dyn_cast_or_null\<close>); the loop header \<^verbatim>\<open>stmt->children()\<close> then dereferences
  the pointer without a check.
\<close>

function FindDeclRef :: "stmt option \<Rightarrow> DeclRefInfo option option" where
  "FindDeclRef None = None"
| "FindDeclRef (Some stmt) =
     (case stmt of
        DeclRefExpr dref \<Rightarrow> Some (Some dref)
      | ArrayInitLoopExpr n (DeclRefExpr arrayDeclRefExpr) sub \<Rightarrow> Some (Some arrayDeclRefExpr)
      | _ \<Rightarrow> FindDeclRef_loop FindDeclRef (children stmt))"
  by pat_completeness auto
termination
  by (relation "measure (\<lambda>p. case p of None \<Rightarrow> 0 | Some s \<Rightarrow> Suc (size s))")
    (simp, (rule FindDeclRef_measure, assumption)+)

section \<open>The lowering routines\<close>

text \<open>The keyword constants of \<^verbatim>\<open>InsightsStrCat.h\<close>, named after their content.\<close>

definition kwSpaceConstExpr :: string where
  "kwSpaceConstExpr = '' constexpr''"

definition kwConstExprSpace :: string where
  "kwConstExprSpace = ''constexpr ''"

text \<open>
  \<^verbatim>\<open>HandleCompoundStmt\<close>. It calls the virtual \<^verbatim>\<open>InsertArg\<close> on every item, which
  is a parameter here and the dispatcher below when the routine is used.
\<close>

definition HandleCompoundStmt ::
  "(stmt \<Rightarrow> gen_state \<Rightarrow> gen_state option) \<Rightarrow> stmt list \<Rightarrow> gen_state \<Rightarrow> gen_state option" where
  "HandleCompoundStmt InsertArg body st =
     for_each (\<lambda>item st. do {
         st \<leftarrow> InsertArg item st;
         if \<not> isa_IfStmt item \<and> \<not> isa_ForStmt item \<and> \<not> isa_DeclStmt item
         then call (AppendNewLine '';'') st
         else Some st
       }) body st"

lemma HandleCompoundStmt_cong [fundef_cong]:
  "body = body' \<Longrightarrow> st = st' \<Longrightarrow> (\<And>item s. item \<in> set body' \<Longrightarrow> f item s = g item s) \<Longrightarrow>
   HandleCompoundStmt f body st = HandleCompoundStmt g body' st'"
  unfolding HandleCompoundStmt_def
  by (rule for_each_cong) (simp_all cong: Option.bind_cong)

definition HandleLocalStaticNonTrivialClass ::
  "helpers \<Rightarrow> VarDeclInfo \<Rightarrow> gen_state \<Rightarrow> gen_state option" where
  "HandleLocalStaticNonTrivialClass h stmt st =
     (let internalVarName = BuildInternalVarName h (vd_name stmt);
          compilerBoolVarName = internalVarName @ ''B'';
          typeName = vd_recordName stmt
      in do {
        st \<leftarrow> call (AppendNewLine (''static bool '' @ compilerBoolVarName @ '';'')) st;
        st \<leftarrow> call (AppendNewLine
                      (''static char '' @ internalVarName @ ''[sizeof('' @ typeName @ '')];'')) st;
        st \<leftarrow> call (AppendNewLine []) st;
        st \<leftarrow> call (AppendNewLine (''if( ! '' @ compilerBoolVarName @ '' )'')) st;
        st \<leftarrow> call OpenScope st;
        st \<leftarrow> call (AppendNewLine (''new (&'' @ internalVarName @ '') '' @ typeName @ '';'')) st;
        st \<leftarrow> call (AppendNewLine (compilerBoolVarName @ '' = true;'')) st;
        st \<leftarrow> call (CloseScope NoNewLineBefore_Yes) st;
        call (AppendNewLine []) st
      })"

text \<open>
  The body of the loop over the bindings of a decomposition declaration, with its two lambdas
  for the expression that initializes the binding and for the reference qualifier. A binding
  without a binding expression is skipped.
\<close>

definition holdingVarOrMemberExpr :: "binding \<Rightarrow> stmt option" where
  "holdingVarOrMemberExpr bindingDecl =
     (case getHoldingVar bindingDecl of
        Some anyInitializer \<Rightarrow> anyInitializer
      | None \<Rightarrow>
          (case getBinding bindingDecl of
             Some binding \<Rightarrow> if isa_MemberExpr binding then Some binding else None
           | None \<Rightarrow> None))"

definition refOrRefRef :: "bool \<Rightarrow> binding \<Rightarrow> string" where
  "refOrRefRef isRefToObject bindingDecl =
     (let isArrayBinding =
            (case getBinding bindingDecl of
               Some binding \<Rightarrow> isa_ArraySubscriptExpr binding \<and> isRefToObject
             | None \<Rightarrow> False);
          isNotTemporary =
            (case holdingVarOrMemberExpr bindingDecl of
               Some e \<Rightarrow> \<not> isa_ExprWithCleanups e
             | None \<Rightarrow> False)
      in if isArrayBinding \<or> isNotTemporary then ''&'' else '''')"

definition InsertArg_binding ::
  "(CodeGeneratorKind \<Rightarrow> stmt \<Rightarrow> gen_state \<Rightarrow> gen_state option) \<Rightarrow> CodeGeneratorKind \<Rightarrow>
   string \<Rightarrow> bool \<Rightarrow> binding \<Rightarrow> gen_state \<Rightarrow> gen_state option" where
  "InsertArg_binding InsertArg this tmpVarName isRefToObject bindingDecl st =
     (case getBinding bindingDecl of
        None \<Rightarrow> Some st
      | Some binding \<Rightarrow> do {
          st \<leftarrow> call (Append (bd_typeName (bd_info bindingDecl)
                                @ refOrRefRef isRefToObject bindingDecl @ '' ''
                                @ bd_name (bd_info bindingDecl) @ '' = '')) st;
          st \<leftarrow> (case holdingVarOrMemberExpr bindingDecl of
                   Some e \<Rightarrow> InsertArg (StructuredBindingsCodeGenerator tmpVarName) e st
                 | None \<Rightarrow>
                     if isa_ArraySubscriptExpr binding
                     then do {
                       st \<leftarrow> call (Append tmpVarName) st;
                       InsertArg this binding st
                     }
                     else call TODO st);
          call (AppendNewLine '';'') st
        })"

fun binding_exprs :: "binding \<Rightarrow> stmt set" where
  "binding_exprs (BindingDecl bindingDecl binding holdingVar) =
     set_option binding \<union> (case holdingVar of None \<Rightarrow> {} | Some i \<Rightarrow> set_option i)"

lemma holdingVarOrMemberExpr_exprs:
  "holdingVarOrMemberExpr b = Some e \<Longrightarrow> e \<in> binding_exprs b"
  by (cases b) (auto simp: holdingVarOrMemberExpr_def split: option.splits if_splits)

lemma getBinding_exprs:
  "getBinding b = Some e \<Longrightarrow> e \<in> binding_exprs b"
  by (cases b) auto

lemma InsertArg_binding_cong [fundef_cong]:
  assumes "b = b'" "st = st'" "this = this'"
    and "\<And>g e s. e \<in> binding_exprs b' \<Longrightarrow> f g e s = f' g e s"
  shows "InsertArg_binding f this tmp isRef b st = InsertArg_binding f' this' tmp isRef b' st'"
proof -
  have eq: "f g e = f' g e" if "e \<in> binding_exprs b'" for g e
    using assms(4) [OF that] by (intro ext)
  show ?thesis
  proof (cases "getBinding b'")
    case None
    then show ?thesis
      unfolding InsertArg_binding_def assms(1-3) by simp
  next
    case (Some x)
    note bx = Some
    note x = eq [OF getBinding_exprs [OF bx]]
    show ?thesis
    proof (cases "holdingVarOrMemberExpr b'")
      case None
      with bx show ?thesis
        unfolding InsertArg_binding_def assms(1-3) by (simp add: x cong: if_cong)
    next
      case (Some e)
      note e = eq [OF holdingVarOrMemberExpr_exprs [OF Some]]
      from Some bx show ?thesis
        unfolding InsertArg_binding_def assms(1-3) by (simp add: e)
    qed
  qed
qed

text \<open>
  The two lambdas of \<^verbatim>\<open>InsertArg(const DecompositionDecl*)\<close> that compute the base
  name and the name of the synthesized temporary from the reference that
  \<^verbatim>\<open>FindDeclRef\<close> returned (\<open>None\<close> for \<^verbatim>\<open>nullptr\<close>).
\<close>

definition baseVarName :: "DeclRefInfo option \<Rightarrow> string" where
  "baseVarName declName =
     (case declName of
        Some d \<Rightarrow>
          (let name = dre_plainName d;
               operatorName = ''operator''
           in if sublist operatorName name then operatorName else name)
      | None \<Rightarrow> [])"

definition tmpVarName :: "helpers \<Rightarrow> VarDeclInfo \<Rightarrow> DeclRefInfo option \<Rightarrow> string" where
  "tmpVarName h decompositionDeclStmt declName =
     (case declName of
        Some d \<Rightarrow>
          if dre_hasDecl d
          then BuildInternalVarNameLoc h (baseVarName declName) (vd_locStart decompositionDeclStmt)
          else BuildInternalVarName h (baseVarName declName)
      | None \<Rightarrow> BuildInternalVarName h (baseVarName declName))"

text \<open>
  \<^verbatim>\<open>InsertArg(const DecompositionDecl*)\<close>. The search of the initializer comes first;
  when it ends the run, nothing has been written. The lambda that computes the base name also
  reports the error when no reference was found; the report is the first step here.
\<close>

definition InsertArg_DecompositionDecl ::
  "(CodeGeneratorKind \<Rightarrow> stmt \<Rightarrow> gen_state \<Rightarrow> gen_state option) \<Rightarrow> helpers \<Rightarrow>
   CodeGeneratorKind \<Rightarrow> VarDeclInfo \<Rightarrow> stmt option \<Rightarrow> binding list \<Rightarrow> gen_state \<Rightarrow>
   gen_state option" where
  "InsertArg_DecompositionDecl InsertArg h this decompositionDeclStmt init bindings st =
     (case FindDeclRef init of
        None \<Rightarrow> None
      | Some declName \<Rightarrow> do {
          st \<leftarrow> (if declName = None then Error (''unknown decl'' @ [CHR 0x0A]) st else Some st);
          let tmpVarName = tmpVarName h decompositionDeclStmt declName;
          st \<leftarrow> call (Append (vd_typeNameAsParameter decompositionDeclStmt tmpVarName @ '' = '')) st;
          st \<leftarrow> null_checked (InsertArg this) init st;
          st \<leftarrow> call (AppendNewLine '';'') st;
          let isRefToObject = vd_isReference decompositionDeclStmt;
          for_each (InsertArg_binding InsertArg this tmpVarName isRefToObject) bindings st
        })"

lemma InsertArg_DecompositionDecl_cong [fundef_cong]:
  assumes "init = init'" "bindings = bindings'" "st = st'" "this = this'"
    and "\<And>g e s. init' = Some e \<Longrightarrow> f g e s = f' g e s"
    and "\<And>g b e s. b \<in> set bindings' \<Longrightarrow> e \<in> binding_exprs b \<Longrightarrow> f g e s = f' g e s"
  shows "InsertArg_DecompositionDecl f h this v init bindings st =
         InsertArg_DecompositionDecl f' h this' v init' bindings' st'"
proof -
  have a: "null_checked (f this') init' = null_checked (f' this') init'"
    by (rule ext) (rule null_checked_cong, simp, simp, rule assms(5))
  have b: "for_each (InsertArg_binding f this' t r) bindings' = for_each (InsertArg_binding f' this' t r) bindings'" for t r
    by (rule ext) (rule for_each_cong, simp, simp, rule InsertArg_binding_cong, simp, simp, simp,
        rule assms(6))
  show ?thesis
    unfolding InsertArg_DecompositionDecl_def assms(1-4) a b ..
qed

text \<open>The name of the type alias that \<^verbatim>\<open>InsertArg(const VarDecl*)\<close> introduces for a
  variable of function pointer type.\<close>

definition funcPtrName :: "VarDeclInfo \<Rightarrow> string" where
  "funcPtrName stmt =
     (let lineNo = loc_line (vd_locStart stmt)
      in ''FuncPtr_'' @ to_string lineNo @ '' '')"

lemma size_binding_member:
  "b \<in> set bs \<Longrightarrow> size (b::binding) \<le> size_list size bs"
  by (rule size_list_estimation') auto

lemma size_binding_exprs:
  "e \<in> binding_exprs b \<Longrightarrow> size e < size b"
  by (cases b) (auto split: option.splits)

lemma size_CompoundStmt_body:
  "item \<in> set (CompoundStmt_body body) \<Longrightarrow> size item < size body"
  by (cases body) (auto dest!: size_stmt_member)

text \<open>
  The dispatch on the variant of a non-null node, with the routine of each variant, and the
  routines for variable declarations and for declarations. The override of the
  structured-bindings generator for name references is the first case; its test
  \<^verbatim>\<open>EndsWith(name, "::")\<close> is the suffix test. The macro
  \<^verbatim>\<open>LAMBDA_SCOPE_HELPER\<close> at the head of some routines pushes a helper on the lambda
  stack and pops it at the end; in a tree without lambda expressions nothing is written to a
  helper, and the stack is left out of the state. The routine for a range-based \<^verbatim>\<open>for\<close>
  statement hands its range, begin and end statements to \<^verbatim>\<open>InsertArg(const DeclStmt*)\<close>,
  which dereferences the pointer it is given; its condition and increment go through the
  dispatcher on statement pointers.
\<close>

function (sequential) InsertArg_node :: "helpers \<Rightarrow> CodeGeneratorKind \<Rightarrow> stmt \<Rightarrow> gen_state \<Rightarrow> gen_state option"
  and InsertArg_VarDecl :: "helpers \<Rightarrow> CodeGeneratorKind \<Rightarrow> var_decl \<Rightarrow> gen_state \<Rightarrow> gen_state option"
  and InsertArg_Decl_node :: "helpers \<Rightarrow> CodeGeneratorKind \<Rightarrow> decl \<Rightarrow> gen_state \<Rightarrow> gen_state option"
  where
  "InsertArg_node h this (DeclRefExpr stmt) st =
     (case this of
        StructuredBindingsCodeGenerator mVarName \<Rightarrow> do {
          st \<leftarrow> call (Append (dre_name stmt)) st;
          if dre_name stmt = [] \<or> suffix ''::'' (dre_name stmt)
          then call (Append mVarName) st
          else Some st
        }
      | _ \<Rightarrow> call (Append (dre_name stmt)) st)"
| "InsertArg_node h this (IntegerLiteral v type) st = do {
     st \<leftarrow> call (Append v) st;
     InsertSuffix type st
   }"
| "InsertArg_node h this (CharacterLiteralExpr stmt) st =
     Some (st\<lparr>written := HandleCharacterLiteral (isPrintable h) stmt (written st)\<rparr>)"
| "InsertArg_node h this (CXXBoolLiteralExpr v) st =
     call (Append (if v then ''true'' else ''false'')) st"
| "InsertArg_node h this CXXNullPtrLiteralExpr st = call (Append ''nullptr'') st"
| "InsertArg_node h this GNUNullExpr st = call (Append ''NULL'') st"
| "InsertArg_node h this CXXThisExpr st = call (Append ''this'') st"
| "InsertArg_node h this (StringLiteral s) st = call (Append s) st"
| "InsertArg_node h this ArrayInitIndexExpr st =
     (case this of
        ArrayInitCodeGenerator mIndex \<Rightarrow> call (Append (to_string mIndex)) st
      | _ \<Rightarrow> Error ''ArrayInitIndexExpr should not be reached in CodeGenerator'' st)"
| "InsertArg_node h this (UnaryOperator opCodeName isPostfix subExpr) st =
     (let insertBefore = \<not> isPostfix
      in do {
        st \<leftarrow> (if insertBefore then call (Append opCodeName) st else Some st);
        st \<leftarrow> InsertArg_node h this subExpr st;
        if \<not> insertBefore then call (Append opCodeName) st else Some st
      })"
| "InsertArg_node h this (BinaryOperator lhs opcodeStr rhs) st = do {
     st \<leftarrow> InsertArg_node h this lhs st;
     st \<leftarrow> call (Append ('' '' @ opcodeStr @ '' '')) st;
     InsertArg_node h this rhs st
   }"
| "InsertArg_node h this (ConditionalOperator cond lhs rhs) st = do {
     st \<leftarrow> InsertArg_node h this cond st;
     st \<leftarrow> call (Append '' ? '') st;
     st \<leftarrow> InsertArg_node h this lhs st;
     st \<leftarrow> call (Append '' : '') st;
     InsertArg_node h this rhs st
   }"
| "InsertArg_node h this (ArraySubscriptExpr lhs rhs) st = do {
     st \<leftarrow> InsertArg_node h this lhs st;
     st \<leftarrow> call (Append ''['') st;
     st \<leftarrow> InsertArg_node h this rhs st;
     call (Append '']'') st
   }"
| "InsertArg_node h this (ParenExpr subExpr) st =
     WrapInParensOrCurlys Parens (InsertArg_node h this subExpr) AddSpaceAtTheEnd_No st"
| "InsertArg_node h this (MemberExpr base isArrow name) st = do {
     st \<leftarrow> InsertArg_node h this base st;
     call (Append ((if isArrow then ''->'' else ''.'') @ name)) st
   }"
| "InsertArg_node h this (ImplicitCastExpr subExpr) st = InsertArg_node h this subExpr st"
| "InsertArg_node h this (ExprWithCleanups subExpr) st = InsertArg_node h this subExpr st"
| "InsertArg_node h this (MaterializeTemporaryExpr temporary) st =
     InsertArg_node h this temporary st"
| "InsertArg_node h this (CXXBindTemporaryExpr subExpr) st = InsertArg_node h this subExpr st"
| "InsertArg_node h this (OpaqueValueExpr sourceExpr) st = InsertArg_node h this sourceExpr st"
| "InsertArg_node h this (InitListExpr initExprs) st = do {
     st \<leftarrow> WrapInParensOrCurlys Curlys (\<lambda>st. do {
             st \<leftarrow> call IncreaseIndent st;
             ForEachArg (InsertArg_node h this) initExprs st
           }) AddSpaceAtTheEnd_No st;
     call DecreaseIndent st
   }"
| "InsertArg_node h this (ArrayInitLoopExpr arraySize sourceExpr subExpr) st =
     WrapInParensOrCurlys Curlys
       (ForEachArg (\<lambda>i. InsertArg_node h (ArrayInitCodeGenerator i) subExpr)
          (NumberIterator h arraySize))
       AddSpaceAtTheEnd_No st"
| "InsertArg_node h this (CallExpr callee arguments) st = do {
     st \<leftarrow> InsertArg_node h this callee st;
     WrapInParensOrCurlys Parens (ForEachArg (InsertArg_node h this) arguments)
       AddSpaceAtTheEnd_No st
   }"
| "InsertArg_node h this (CXXMemberCallExpr callee arguments) st = do {
     st \<leftarrow> InsertArg_node h this callee st;
     WrapInParensOrCurlys Parens (ForEachArg (InsertArg_node h this) arguments)
       AddSpaceAtTheEnd_No st
   }"
| "InsertArg_node h this NullStmt st = call (AppendNewLine '';'') st"
| "InsertArg_node h this BreakStmt st = call (Append ''break'') st"
| "InsertArg_node h this (CompoundStmt body) st = do {
     st \<leftarrow> call OpenScope st;
     st \<leftarrow> HandleCompoundStmt (InsertArg_node h this) body st;
     call (CloseScope NoNewLineBefore_Yes) st
   }"
| "InsertArg_node h this (DeclStmt decls) st = for_each (InsertArg_Decl_node h this) decls st"
| "InsertArg_node h this (ReturnStmt retValue) st = do {
     st \<leftarrow> call (Append ''return'') st;
     (case retValue of
        Some retVal \<Rightarrow> do {
          st \<leftarrow> call (Append '' '') st;
          InsertArg_node h this retVal st
        }
      | None \<Rightarrow> Some st)
   }"
| "InsertArg_node h this (IfStmt isConstexpr init conditionVariable cond body elseStmt) st =
     (let cexpr = (if isConstexpr then kwSpaceConstExpr else '''');
          hasInit = (init \<noteq> None \<or> conditionVariable \<noteq> None)
      in do {
        st \<leftarrow> (if hasInit
               then do {
                 st \<leftarrow> call OpenScope st;
                 st \<leftarrow> (case conditionVariable of
                          Some conditionVar \<Rightarrow> InsertArg_VarDecl h this conditionVar st
                        | None \<Rightarrow> Some st);
                 (case init of
                    Some i \<Rightarrow> InsertArg_node h this i st
                  | None \<Rightarrow> Some st)
               }
               else Some st);
        st \<leftarrow> call (Append (''if'' @ cexpr)) st;
        st \<leftarrow> WrapInParensOrCurlys Parens (InsertArg_node h this cond) AddSpaceAtTheEnd_Yes st;
        st \<leftarrow> InsertArg_node h this body st;
        st \<leftarrow> (if \<not> isa_CompoundStmt body \<and> \<not> isa_NullStmt body
               then call (AppendNewLine '';'') st
               else Some st);
        st \<leftarrow> (case elseStmt of
                 Some elsePart \<Rightarrow> do {
                   st \<leftarrow> (if isa_CompoundStmt body then call (Append '' '') st else Some st);
                   st \<leftarrow> call (Append (''else '' @ (if isConstexpr
                                                       then ''/* '' @ kwConstExprSpace @ ''*/ ''
                                                       else ''''))) st;
                   st \<leftarrow> (if isa_IfStmt elsePart then call OpenScope st else Some st);
                   st \<leftarrow> InsertArg_node h this elsePart st;
                   if isa_IfStmt elsePart then call (CloseScope NoNewLineBefore_No) st
                   else Some st
                 }
               | None \<Rightarrow> Some st);
        st \<leftarrow> call (AppendNewLine []) st;
        if hasInit
        then do {
          st \<leftarrow> call (CloseScope NoNewLineBefore_No) st;
          call (AppendNewLine []) st
        }
        else Some st
      })"
| "InsertArg_node h this (ForStmt init conditionVariableDeclStmt cond inc body) st = do {
     st \<leftarrow> call (Append ''for'') st;
     st \<leftarrow> WrapInParensOrCurlys Parens (\<lambda>st. do {
             st \<leftarrow> (case init of
                      Some i \<Rightarrow> InsertArg_node h this i st
                    | None \<Rightarrow> call (Append ''; '') st);
             st \<leftarrow> null_checked (InsertArg_node h this) cond st;
             st \<leftarrow> call (Append ''; '') st;
             null_checked (InsertArg_node h this) inc st
           }) AddSpaceAtTheEnd_Yes st;
     st \<leftarrow> call (AppendNewLine []) st;
     st \<leftarrow> InsertArg_node h this body st;
     call (AppendNewLine []) st
   }"
| "InsertArg_node h this (WhileStmt conditionVariableDeclStmt cond body) st = do {
     st \<leftarrow> call (Append ''while'') st;
     st \<leftarrow> WrapInParensOrCurlys Parens (InsertArg_node h this cond) AddSpaceAtTheEnd_Yes st;
     InsertArg_node h this body st
   }"
| "InsertArg_node h this (DoStmt body cond) st = do {
     st \<leftarrow> call (Append ''do '') st;
     st \<leftarrow> InsertArg_node h this body st;
     st \<leftarrow> (if isa_CompoundStmt body then call (Append '' '') st else Some st);
     st \<leftarrow> call (Append ''while'') st;
     WrapInParensOrCurlys Parens (InsertArg_node h this cond) AddSpaceAtTheEnd_Yes st
   }"
| "InsertArg_node h this (CXXForRangeStmt rangeStmt beginStmt endStmt cond inc loopVariable body) st = do {
     st \<leftarrow> call OpenScope st;
     st \<leftarrow> (case rangeStmt of
              None \<Rightarrow> None
            | Some decls \<Rightarrow> for_each (InsertArg_Decl_node h this) decls st);
     st \<leftarrow> (case beginStmt of
              None \<Rightarrow> None
            | Some decls \<Rightarrow> for_each (InsertArg_Decl_node h this) decls st);
     st \<leftarrow> (case endStmt of
              None \<Rightarrow> None
            | Some decls \<Rightarrow> for_each (InsertArg_Decl_node h this) decls st);
     st \<leftarrow> call (AppendNewLine []) st;
     st \<leftarrow> call (Append ''for( ; '') st;
     st \<leftarrow> null_checked (InsertArg_node h this) cond st;
     st \<leftarrow> call (Append ''; '') st;
     st \<leftarrow> null_checked (InsertArg_node h this) inc st;
     st \<leftarrow> call (AppendNewLine '' )'') st;
     st \<leftarrow> call OpenScope st;
     st \<leftarrow> InsertArg_VarDecl h this loopVariable st;
     st \<leftarrow> (if \<not> isa_CompoundStmt body
            then InsertArg_node h this body st
            else HandleCompoundStmt (InsertArg_node h this) (CompoundStmt_body body) st);
     st \<leftarrow> (if \<not> isa_CompoundStmt body \<and> \<not> isa_NullStmt body
            then call (AppendNewLine '';'') st
            else Some st);
     st \<leftarrow> call (CloseScope NoNewLineBefore_Yes) st;
     call (CloseScope NoNewLineBefore_No) st
   }"
| "InsertArg_node h this (UnsupportedStmt cs) st = call TODO st"
| "InsertArg_VarDecl h this (VarDecl stmt init bindings) st =
     (case bindings of
        Some bs \<Rightarrow> InsertArg_DecompositionDecl (InsertArg_node h) h this stmt init bs st
      | None \<Rightarrow>
          if vd_isTrivialStaticClassVarDecl stmt
          then HandleLocalStaticNonTrivialClass h stmt st
          else do {
            st \<leftarrow> call (Append (GetQualifiers stmt)) st;
            st \<leftarrow> (if vd_isFunctionPointerType stmt
                   then do {
                     st \<leftarrow> call (AppendNewLine (''using '' @ funcPtrName stmt @ ''= ''
                                                 @ vd_typeName stmt @ '';'')) st;
                     call (Append (funcPtrName stmt @ vd_name stmt)) st
                   }
                   else call (Append (vd_typeNameAsParameter stmt (vd_name stmt))) st);
            st \<leftarrow> (case init of
                     Some i \<Rightarrow> do {
                       st \<leftarrow> call (Append '' = '') st;
                       InsertArg_node h this i st
                     }
                   | None \<Rightarrow> Some st);
            st \<leftarrow> (if vd_isNRVOVariable stmt
                   then call (Append '' /* NRVO variable */'') st
                   else Some st);
            call (AppendNewLine '';'') st
          })"
| "InsertArg_Decl_node h this (Decl_VarDecl stmt) st = InsertArg_VarDecl h this stmt st"
| "InsertArg_Decl_node h this UnsupportedDecl st = call TODO st"
  by pat_completeness auto

termination
  by (relation "measure (\<lambda>x. case x of
          Inl (h, this, s, st) \<Rightarrow> size s
        | Inr (Inl (h, this, vd, st)) \<Rightarrow> size vd
        | Inr (Inr (h, this, d, st)) \<Rightarrow> size d)")
     (auto dest!: size_stmt_member size_decl_member size_binding_member size_binding_exprs
        size_CompoundStmt_body)

text \<open>
  The two dispatchers on pointers. \<^verbatim>\<open>InsertArg(const Stmt*)\<close> returns at once for a
  null pointer. \<^verbatim>\<open>InsertArg(const Decl*)\<close> has no such check: its first
  \<^verbatim>\<open>isa<type>(stmt)\<close> is applied to the null pointer, which llvm's \<^verbatim>\<open>isa\<close>
  rejects with an assertion and dereferences otherwise.
\<close>

definition InsertArg_Stmt ::
  "helpers \<Rightarrow> CodeGeneratorKind \<Rightarrow> stmt option \<Rightarrow> gen_state \<Rightarrow> gen_state option" where
  "InsertArg_Stmt h this stmt st = null_checked (InsertArg_node h this) stmt st"

definition InsertArg_Decl ::
  "helpers \<Rightarrow> CodeGeneratorKind \<Rightarrow> decl option \<Rightarrow> gen_state \<Rightarrow> gen_state option" where
  "InsertArg_Decl h this stmt st =
     (case stmt of
        None \<Rightarrow> None
      | Some d \<Rightarrow> InsertArg_Decl_node h this d st)"

text \<open>
  Helper functions to run examples with: the printable ASCII characters, internal names
  made of two underscores, the name and the line number, and iteration from zero up to the
  array size.
\<close>

definition example_helpers :: helpers where
  "example_helpers =
     \<lparr>isPrintable = isPrintable_ascii,
      BuildInternalVarName = (\<lambda>varName. ''__'' @ varName),
      BuildInternalVarNameLoc = (\<lambda>varName loc. ''__'' @ varName @ to_string (loc_line loc)),
      NumberIterator = (\<lambda>n. [0..<n])\<rparr>"

definition plain_var :: "string \<Rightarrow> string \<Rightarrow> nat \<Rightarrow> VarDeclInfo" where
  "plain_var typeName name lineNo =
     \<lparr>vd_name = name, vd_typeName = typeName,
      vd_typeNameAsParameter = (\<lambda>varName. typeName @ '' '' @ varName),
      vd_isInline = False, vd_storageClass = SC_None, vd_isConstexpr = False,
      vd_isFunctionPointerType = False,
      vd_locStart = \<lparr>loc_line = lineNo, loc_column = 1\<rparr>,
      vd_isNRVOVariable = False, vd_isReference = False,
      vd_isTrivialStaticClassVarDecl = False, vd_recordName = []\<rparr>"

definition name_ref :: "string \<Rightarrow> stmt" where
  "name_ref name = DeclRefExpr \<lparr>dre_name = name, dre_plainName = name, dre_hasDecl = True\<rparr>"

definition init_state :: gen_state where
  "init_state = \<lparr>written = [], reported = []\<rparr>"

text \<open>
  What a routine writes when it is run on an empty buffer, \<open>None\<close> when it ends the run.
  What parts written one after the other give: their concatenation, and \<open>None\<close> as soon
  as one of them ends the run.
\<close>

definition emits :: "(gen_state \<Rightarrow> gen_state option) \<Rightarrow> OutputFormatHelper option" where
  "emits f = map_option written (f init_state)"

fun in_sequence :: "'a list option list \<Rightarrow> 'a list option" where
  "in_sequence [] = Some []"
| "in_sequence (None # parts) = None"
| "in_sequence (Some w # parts) = map_option ((@) w) (in_sequence parts)"

section \<open>The guard of a static local variable, read as C++\<close>

text \<open>
  The lines that \<^verbatim>\<open>HandleLocalStaticNonTrivialClass\<close> writes are C++ statements of five
  forms. \<open>text_of\<close> gives the lines of a statement, \<open>exec\<close> what running it does to the
  variables of static storage duration: a flag for every \<^verbatim>\<open>static bool\<close> and, for every
  character array, the number of objects constructed in it so far. A declaration of a static
  variable does nothing when control passes it: the variable is zero-initialized before the
  first call and keeps its value from one call to the next. \<open>after_calls n\<close> is the state
  after the statements have been run \<open>n\<close> times, once for every call of the enclosing
  function. \<open>guarded_construction\<close> is the statement list of the routine, with its names.
\<close>

datatype emitted_stmt =
    StaticBool string
  | StaticCharArray string string
  | IfNot string "emitted_stmt list"
  | PlacementNew string string
  | AssignTrue string

fun text_of :: "emitted_stmt \<Rightarrow> OutputFormatHelper" where
  "text_of (StaticBool guard) = [AppendNewLine (''static bool '' @ guard @ '';'')]"
| "text_of (StaticCharArray storage typeName) =
     [AppendNewLine (''static char '' @ storage @ ''[sizeof('' @ typeName @ '')];'')]"
| "text_of (IfNot guard body) =
     [AppendNewLine [], AppendNewLine (''if( ! '' @ guard @ '' )''), OpenScope]
     @ concat (map text_of body)
     @ [CloseScope NoNewLineBefore_Yes, AppendNewLine []]"
| "text_of (PlacementNew storage typeName) =
     [AppendNewLine (''new (&'' @ storage @ '') '' @ typeName @ '';'')]"
| "text_of (AssignTrue guard) = [AppendNewLine (guard @ '' = true;'')]"

record statics =
  flag :: "string \<Rightarrow> bool"
  constructions :: "string \<Rightarrow> nat"

fun exec :: "emitted_stmt \<Rightarrow> statics \<Rightarrow> statics" where
  "exec (StaticBool guard) m = m"
| "exec (StaticCharArray storage typeName) m = m"
| "exec (IfNot guard body) m = (if \<not> flag m guard then fold exec body m else m)"
| "exec (PlacementNew storage typeName) m =
     m\<lparr>constructions := (constructions m)(storage := Suc (constructions m storage))\<rparr>"
| "exec (AssignTrue guard) m = m\<lparr>flag := (flag m)(guard := True)\<rparr>"

definition zero_initialized :: statics where
  "zero_initialized = \<lparr>flag = (\<lambda>name. False), constructions = (\<lambda>name. 0)\<rparr>"

definition after_calls :: "nat \<Rightarrow> emitted_stmt list \<Rightarrow> statics" where
  "after_calls n program = ((fold exec program) ^^ n) zero_initialized"

definition guarded_construction :: "helpers \<Rightarrow> VarDeclInfo \<Rightarrow> emitted_stmt list" where
  "guarded_construction h stmt =
     (let internalVarName = BuildInternalVarName h (vd_name stmt);
          compilerBoolVarName = internalVarName @ ''B'';
          typeName = vd_recordName stmt
      in [StaticBool compilerBoolVarName,
          StaticCharArray internalVarName typeName,
          IfNot compilerBoolVarName
            [PlacementNew internalVarName typeName, AssignTrue compilerBoolVarName]])"


section \<open>Example trees\<close>

text \<open>
  The range-based loop \<^verbatim>\<open>for(auto& e : v) sum += e;\<close> over \<^verbatim>\<open>int v[3]\<close> as clang
  resolves it, with the declarations of the range, of begin and end, the condition and the
  increment on the synthesized iterators, and the loop variable.
\<close>

definition ex_range_for :: stmt where
  "ex_range_for =
     CXXForRangeStmt
       (Some [Decl_VarDecl (VarDecl
          ((plain_var ''int (&)[3]'' ''__range1'' 4)
             \<lparr>vd_typeNameAsParameter := (\<lambda>n. ''int (&'' @ n @ '')[3]''), vd_isReference := True\<rparr>)
          (Some (name_ref ''v'')) None)])
       (Some [Decl_VarDecl (VarDecl (plain_var ''int *'' ''__begin1'' 4)
          (Some (ImplicitCastExpr (name_ref ''__range1''))) None)])
       (Some [Decl_VarDecl (VarDecl (plain_var ''int *'' ''__end1'' 4)
          (Some (BinaryOperator (ImplicitCastExpr (name_ref ''__range1'')) ''+''
                   (IntegerLiteral ''3'' (Some BT_Long)))) None)])
       (Some (BinaryOperator (ImplicitCastExpr (name_ref ''__begin1'')) ''!=''
                (ImplicitCastExpr (name_ref ''__end1''))))
       (Some (UnaryOperator ''++'' False (name_ref ''__begin1'')))
       (VarDecl ((plain_var ''int &'' ''e'' 4)\<lparr>vd_isReference := True\<rparr>)
          (Some (UnaryOperator ''*'' False (ImplicitCastExpr (name_ref ''__begin1'')))) None)
       (BinaryOperator (name_ref ''sum'') ''+='' (ImplicitCastExpr (name_ref ''e'')))"

text \<open>
  The same loop with the braced body \<^verbatim>\<open>{ sum += e; if(done) break; }\<close>.
\<close>

definition ex_range_for_braced :: stmt where
  "ex_range_for_braced =
     CXXForRangeStmt
       (Some [Decl_VarDecl (VarDecl
          ((plain_var ''int (&)[3]'' ''__range1'' 4)
             \<lparr>vd_typeNameAsParameter := (\<lambda>n. ''int (&'' @ n @ '')[3]''), vd_isReference := True\<rparr>)
          (Some (name_ref ''v'')) None)])
       (Some [Decl_VarDecl (VarDecl (plain_var ''int *'' ''__begin1'' 4)
          (Some (ImplicitCastExpr (name_ref ''__range1''))) None)])
       (Some [Decl_VarDecl (VarDecl (plain_var ''int *'' ''__end1'' 4)
          (Some (BinaryOperator (ImplicitCastExpr (name_ref ''__range1'')) ''+''
                   (IntegerLiteral ''3'' (Some BT_Long)))) None)])
       (Some (BinaryOperator (ImplicitCastExpr (name_ref ''__begin1'')) ''!=''
                (ImplicitCastExpr (name_ref ''__end1''))))
       (Some (UnaryOperator ''++'' False (name_ref ''__begin1'')))
       (VarDecl ((plain_var ''int &'' ''e'' 4)\<lparr>vd_isReference := True\<rparr>)
          (Some (UnaryOperator ''*'' False (ImplicitCastExpr (name_ref ''__begin1'')))) None)
       (CompoundStmt
          [BinaryOperator (name_ref ''sum'') ''+='' (ImplicitCastExpr (name_ref ''e'')),
           IfStmt False None None (ImplicitCastExpr (name_ref ''done'')) BreakStmt None])"

text \<open>
  The loop of \<^verbatim>\<open>template<class T> void f(T& c) { for(auto& x : c) { } }\<close> before
  the template is instantiated: the range is type-dependent, and the begin and end statements,
  the condition and the increment are null.
\<close>

definition ex_range_for_dependent :: stmt where
  "ex_range_for_dependent =
     CXXForRangeStmt
       (Some [Decl_VarDecl (VarDecl
          ((plain_var ''auto &&'' ''__range1'' 3)\<lparr>vd_isReference := True\<rparr>)
          (Some (name_ref ''c'')) None)])
       None None None None
       (VarDecl ((plain_var ''auto &'' ''x'' 3)\<lparr>vd_isReference := True\<rparr>) None None)
       (CompoundStmt [])"




text \<open>
  \<^verbatim>\<open>auto [a, b] = ({ for(;;) { break; } P{1, 2}; });\<close> with a statement expression, a
  node kind without lowering routine, as initializer. The \<^verbatim>\<open>for\<close> statement has neither
  init statement nor condition variable nor condition nor increment, so its first four
  children are null pointers.
\<close>

definition ex_decomposition_null_child :: var_decl where
  "ex_decomposition_null_child =
     VarDecl (plain_var ''P'' [] 7)
       (Some (UnsupportedStmt
          [Some (CompoundStmt
             [ForStmt None None None None (CompoundStmt [BreakStmt]),
              InitListExpr [IntegerLiteral ''1'' (Some BT_Int), IntegerLiteral ''2'' (Some BT_Int)]])]))
       (Some [BindingDecl \<lparr>bd_typeName = ''int'', bd_name = ''a''\<rparr>
                (Some (MemberExpr (name_ref []) False ''x'')) None,
              BindingDecl \<lparr>bd_typeName = ''int'', bd_name = ''b''\<rparr>
                (Some (MemberExpr (name_ref []) False ''y'')) None])"

text \<open>
  A function-local \<^verbatim>\<open>static Singleton s;\<close> of class type with a non-trivial
  constructor.
\<close>

definition ex_static_local :: var_decl where
  "ex_static_local =
     VarDecl ((plain_var ''Singleton'' ''s'' 7)
                \<lparr>vd_storageClass := SC_Static, vd_isTrivialStaticClassVarDecl := True,
                 vd_recordName := ''Singleton''\<rparr>) None None"

text \<open>
  Two function pointer variables declared on line 3,
  \<^verbatim>\<open>void (*f)() = a; int (*g)(int) = b;\<close>.
\<close>

definition ex_funcptr_f :: VarDeclInfo where
  "ex_funcptr_f =
     (plain_var ''void (*)()'' ''f'' 3)
       \<lparr>vd_isFunctionPointerType := True, vd_locStart := \<lparr>loc_line = 3, loc_column = 1\<rparr>\<rparr>"

definition ex_funcptr_g :: VarDeclInfo where
  "ex_funcptr_g =
     (plain_var ''int (*)(int)'' ''g'' 3)
       \<lparr>vd_isFunctionPointerType := True, vd_locStart := \<lparr>loc_line = 3, loc_column = 20\<rparr>\<rparr>"

text \<open>
  The lambda of \<^verbatim>\<open>using Row = int[3]; Row r; auto f = [&r] { return r[0]; };\<close>: one
  capture by reference of a variable of array type, whose type is printed by its alias name.
\<close>

definition ex_lambda_array_alias :: LambdaExprInfo where
  "ex_lambda_array_alias =
     \<lparr>lambdaTypeName = ''__lambda_5_14'', lambdaName = ''__lambda_5_14'', methods = [],
      captures =
        [\<lparr>capturesVariable = True, capturesThis = False, capturesVLAType = False,
          getCaptureKind = LCK_ByRef,
          capturedVar_type = \<lparr>ct_name = ''Row'', ct_isReferenceType = False, ct_isArrayType = True\<rparr>,
          capturedVar_name = ''r'', capturedVar_hasInit = False,
          captureInit_type = \<lparr>ct_name = ''Row'', ct_isReferenceType = False, ct_isArrayType = True\<rparr>,
          captureInit_text = ''r''\<rparr>]\<rparr>"

section \<open>Properties of the lambda scope stack\<close>

lemma GetBuffer_element_none:
  "\<forall>l \<in> set stack. callerType l \<notin> anchoring \<Longrightarrow> GetBuffer_element stack = None"
  by (induction stack) (auto simp: anchoring_def split: LambdaCallerType.splits)

lemma GetBuffer_element_first:
  "\<forall>x \<in> set pre. callerType x \<notin> anchoring \<Longrightarrow> callerType l \<in> anchoring \<Longrightarrow>
   GetBuffer_element (pre @ l # post) = Some l"
  by (induction pre) (auto simp: anchoring_def split: LambdaCallerType.splits)

lemma GetBuffer_none:
  "\<forall>l \<in> set stack. callerType l \<notin> anchoring \<Longrightarrow> GetBuffer stack ofh = ofh"
  by (simp add: GetBuffer_def GetBuffer_element_none)

lemma GetBuffer_first:
  "\<forall>x \<in> set pre. callerType x \<notin> anchoring \<Longrightarrow> callerType l \<in> anchoring \<Longrightarrow>
   GetBuffer (pre @ l # post) ofh = buffer l"
  by (simp add: GetBuffer_def GetBuffer_element_first)

text \<open>
  C1. The buffer that receives the class of a lambda expression. With an empty stack it is
  the ambient buffer of the generator. Otherwise it is the buffer of the helper at the back of
  the stack; that helper was pushed by a scope handler on some stack \<open>below\<close> with some
  ambient buffer \<open>amb\<close>, and its buffer is the buffer of the first anchoring entry of
  \<open>below\<close> met from the outermost entry inwards when there is one (so every helper pushed
  above an anchoring entry shares that entry's buffer), and \<open>amb\<close> itself when \<open>below\<close>
  has no anchoring entry.
\<close>

theorem lambda_class_buffer:
  "(HandleLambdaExpr_outputFormatHelper (InsertArg_LambdaExpr_helper [] ofh) = ofh) \<and>
   ((\<forall>l \<in> set below. callerType l \<notin> anchoring) \<longrightarrow>
      HandleLambdaExpr_outputFormatHelper
        (InsertArg_LambdaExpr_helper (LambdaScopeHandler below amb t) ofh) = amb) \<and>
   (below = pre @ l # post \<and> (\<forall>x \<in> set pre. callerType x \<notin> anchoring) \<and>
    callerType l \<in> anchoring \<longrightarrow>
      HandleLambdaExpr_outputFormatHelper
        (InsertArg_LambdaExpr_helper (LambdaScopeHandler below amb t) ofh) = buffer l)"
  by (simp add: HandleLambdaExpr_outputFormatHelper_def InsertArg_LambdaExpr_helper_def
      LambdaScopeHandler_def GetBuffer_none GetBuffer_first)

theorem lambda_class_buffer_witness:
  "HandleLambdaExpr_outputFormatHelper
     (InsertArg_LambdaExpr_helper
        (LambdaScopeHandler
           [\<lparr>callerType = LCT_LambdaExpr, buffer = 5, inits = []\<rparr>,
            \<lparr>callerType = LCT_CallExpr, buffer = 7, inits = []\<rparr>,
            \<lparr>callerType = LCT_VarDecl, buffer = 9, inits = []\<rparr>] 3 LCT_ReturnStmt) 4) = 7 \<and>
   HandleLambdaExpr_outputFormatHelper
     (InsertArg_LambdaExpr_helper
        (LambdaScopeHandler [\<lparr>callerType = LCT_LambdaExpr, buffer = 5, inits = []\<rparr>] 3
           LCT_ReturnStmt) 4) = 3"
  using lambda_class_buffer
    [of 4 "[\<lparr>callerType = LCT_LambdaExpr, buffer = 5, inits = []\<rparr>,
            \<lparr>callerType = LCT_CallExpr, buffer = 7, inits = []\<rparr>,
            \<lparr>callerType = LCT_VarDecl, buffer = 9, inits = []\<rparr>]" 3 LCT_ReturnStmt
        "[\<lparr>callerType = LCT_LambdaExpr, buffer = 5, inits = []\<rparr>]"
        "\<lparr>callerType = LCT_CallExpr, buffer = 7, inits = []\<rparr>"
        "[\<lparr>callerType = LCT_VarDecl, buffer = 9, inits = []\<rparr>]"]
    lambda_class_buffer
    [of 4 "[\<lparr>callerType = LCT_LambdaExpr, buffer = 5, inits = []\<rparr>]" 3 LCT_ReturnStmt
        "[]" "\<lparr>callerType = LCT_CallExpr, buffer = 7, inits = []\<rparr>" "[]"]
  by (simp add: anchoring_def)

section \<open>Properties of character literals\<close>

text \<open>
  C10. A character literal whose value is none of the ten escaped characters and which,
  after the masking of the default branch, is not below 256 or not printable, adds nothing
  to the buffer but its encoding prefix (nothing at all for a plain literal): the value is
  dropped from the output.
\<close>

theorem HandleCharacterLiteral_drops_value:
  assumes "cl_value stmt \<notin> {0x5C, 0, 0x27, 7, 8, 0xC, 0xA, 0xD, 9, 0xB}"
    and "m = (if (cl_value stmt AND NOT 0xFF) = NOT 0xFF \<and> cl_kind stmt = Ascii
              then cl_value stmt AND 0xFF else cl_value stmt)"
    and "\<not> m < 256 \<or> \<not> printable (ucast m)"
  shows "HandleCharacterLiteral printable stmt out =
           out @ (case cl_kind stmt of
                    Ascii \<Rightarrow> []
                  | Wide \<Rightarrow> [Append ''L'']
                  | UTF8 \<Rightarrow> [Append ''u8'']
                  | UTF16 \<Rightarrow> [Append ''u'']
                  | UTF32 \<Rightarrow> [Append ''U''])"
proof -
  have pre: "kind_prefix (cl_kind stmt) out =
           out @ (case cl_kind stmt of
                    Ascii \<Rightarrow> []
                  | Wide \<Rightarrow> [Append ''L'']
                  | UTF8 \<Rightarrow> [Append ''u8'']
                  | UTF16 \<Rightarrow> [Append ''u'']
                  | UTF32 \<Rightarrow> [Append ''U''])"
    by (cases "cl_kind stmt") (simp_all add: kind_prefix_def)
  from assms(1) have esc: "cl_value stmt \<noteq> 0x5C" "cl_value stmt \<noteq> 0" "cl_value stmt \<noteq> 0x27"
    "cl_value stmt \<noteq> 7" "cl_value stmt \<noteq> 8" "cl_value stmt \<noteq> 0xC" "cl_value stmt \<noteq> 0xA"
    "cl_value stmt \<noteq> 0xD" "cl_value stmt \<noteq> 9" "cl_value stmt \<noteq> 0xB"
    by auto
  from assms(2,3) have "HandleCharacterLiteral printable stmt out = kind_prefix (cl_kind stmt) out"
    unfolding HandleCharacterLiteral_def Let_def using esc by auto
  with pre show ?thesis by simp
qed

theorem HandleCharacterLiteral_drops_value_witness:
  "HandleCharacterLiteral isPrintable_ascii \<lparr>cl_kind = Wide, cl_value = 0x20AC\<rparr> [] = [Append ''L'']"
  using HandleCharacterLiteral_drops_value
    [where stmt = "\<lparr>cl_kind = Wide, cl_value = 0x20AC\<rparr>" and m = "0x20AC"
       and printable = isPrintable_ascii and out = "[]"]
  by simp

section \<open>Properties of the lambda class\<close>

lemma InsertBefore_bracket:
  "CHR ''['' \<notin> set pre \<Longrightarrow>
   InsertBefore (pre @ CHR ''['' # post) ''['' r = pre @ r @ CHR ''['' # post"
  by (induction pre) auto



text \<open>
  One iteration of the capture loop for a by-reference capture of a variable. When the
  variable's type is neither a reference nor an array, the field is written as the type name,
  one \<open>&\<close> and the name, and the constructor parameter as the type name, one \<open>&\<close> and
  the underscored name. When the type is an array type, whose printed name has its first
  \<open>[\<close> after \<open>pre\<close>, no \<open>&\<close> is appended: field and parameter are the type name with
  \<open>(&name)\<close>, respectively \<open>(&_name)\<close>, inserted in front of that bracket.
\<close>

lemma capture_step_by_reference:
  assumes "capturesVariable c" and "\<not> capturesThis c" and "getCaptureKind c = LCK_ByRef"
  shows
    "(\<not> ct_isReferenceType (capturedVar_type c) \<and> \<not> ct_isArrayType (capturedVar_type c) \<longrightarrow>
        cs_ctor (capture_step c s) =
          cs_ctor s @ (if cs_first s then [] else '', '')
          @ ct_name (capturedVar_type c) @ ''&'' @ '' _'' @ capturedVar_name c \<and>
        cs_buffer (capture_step c s) =
          cs_buffer s @ (if cs_first s then [AppendNewLine []] else [])
          @ [Append (ct_name (capturedVar_type c)), Append ''&'',
             AppendNewLine ('' '' @ capturedVar_name c @ '';'')]) \<and>
     (ct_isArrayType (capturedVar_type c) \<and> ct_name (capturedVar_type c) = pre @ ''['' @ post \<and>
      CHR ''['' \<notin> set pre \<longrightarrow>
        cs_ctor (capture_step c s) =
          cs_ctor s @ (if cs_first s then [] else '', '')
          @ pre @ ''(&_'' @ capturedVar_name c @ '')'' @ ''['' @ post \<and>
        cs_buffer (capture_step c s) =
          cs_buffer s @ (if cs_first s then [AppendNewLine []] else [])
          @ [Append (pre @ ''(&'' @ capturedVar_name c @ '')'' @ ''['' @ post),
             AppendNewLine '';''])"
  using assms
  by (auto simp: capture_step_def Let_def GetCaptureTypeNameAsParameter_def InsertBefore_bracket)

text \<open>
  C5 at its failing input, the by-reference capture of an array whose type is printed by an
  alias name. The branch for array types writes the type text and a semicolon and leaves the
  name and the reference to \<^verbatim>\<open>GetCaptureTypeNameAsParameter\<close>, which inserts
  \<open>(&name)\<close> in front of the first bracket of the type text; \<open>Row\<close> has no bracket.
  The class gets the field \<open>Row;\<close> and the constructor parameter \<open>Row\<close>: no
  \<open>&\<close>, no parenthesized declarator and no name, while the constructor initializes
  \<open>r\<close> from \<open>_r\<close>.
\<close>

theorem HandleLambdaExpr_array_alias_capture:
  "HandleLambdaExpr ex_lambda_array_alias LCT_VarDecl [] [] =
     \<lparr>lr_buffer =
        [AppendNewLine [], AppendNewLine ''class __lambda_5_14'', OpenScope,
         AppendNewLine [], Append ''private:'',
         AppendNewLine [], Append ''Row'', AppendNewLine '';'',
         AppendNewLine [], AppendNewLine ''public: __lambda_5_14(Row)'',
         AppendNewLine '': r{_r}'', AppendNewLine ''{}'',
         CloseScope NoNewLineBefore_No, AppendNewLine '';'', AppendNewLine []],
      lr_back_inits = ''{r}'', lr_errors = []\<rparr>"
  by (simp add: HandleLambdaExpr_def ex_lambda_array_alias_def capture_step_def
      GetCaptureTypeNameAsParameter_def kwClassSpace_def Let_def)

section \<open>Routines only append\<close>

text \<open>
  A routine is framed when running it in any state gives the result of running it in the empty
  state, appended to what the state already holds: it never reads or changes what was written
  or reported before, and whether it ends the run does not depend on the state.
\<close>

definition extend :: "gen_state \<Rightarrow> gen_state \<Rightarrow> gen_state" where
  "extend st r = \<lparr>written = written st @ written r, reported = reported st @ reported r\<rparr>"

definition framed :: "(gen_state \<Rightarrow> gen_state option) \<Rightarrow> bool" where
  "framed f \<longleftrightarrow> (\<forall>st. f st = map_option (extend st) (f init_state))"

lemma extend_init [simp]: "extend st init_state = st"
  by (simp add: extend_def init_state_def)

lemma extend_assoc: "extend (extend a b) c = extend a (extend b c)"
  by (simp add: extend_def)

lemma framedD: "framed f \<Longrightarrow> f st = map_option (extend st) (f init_state)"
  unfolding framed_def by blast

lemma framed_eq: "(\<And>st. f st = g st) \<Longrightarrow> framed g \<Longrightarrow> framed f"
proof -
  assume "\<And>st. f st = g st"
  then have "f = g" by (intro ext)
  moreover assume "framed g"
  ultimately show "framed f" by blast
qed

lemma framed_Some: "framed Some"
  by (simp add: framed_def)

lemma framed_None: "framed (\<lambda>st. None)"
  by (simp add: framed_def)

lemma framed_call: "framed (call c)"
  by (simp add: framed_def call_def extend_def init_state_def)

lemma framed_Error: "framed (Error msg)"
  by (simp add: framed_def Error_def extend_def init_state_def)

lemma framed_bind:
  assumes "framed f" and "framed g"
  shows "framed (\<lambda>st. Option.bind (f st) g)"
  unfolding framed_def
proof
  fix st
  show "Option.bind (f st) g = map_option (extend st) (Option.bind (f init_state) g)"
  proof (cases "f init_state")
    case None
    with framedD [OF assms(1), of st] show ?thesis by simp
  next
    case (Some r)
    have "g (extend st r) = map_option (extend (extend st r)) (g init_state)"
      by (rule framedD [OF assms(2)])
    moreover have "g r = map_option (extend r) (g init_state)"
      by (rule framedD [OF assms(2)])
    ultimately show ?thesis
      using Some framedD [OF assms(1), of st]
      by (cases "g init_state") (simp_all add: extend_assoc)
  qed
qed

lemma framed_if:
  "(c \<Longrightarrow> framed f) \<Longrightarrow> (\<not> c \<Longrightarrow> framed g) \<Longrightarrow> framed (\<lambda>st. if c then f st else g st)"
  by (cases c) simp_all

lemma framed_case_option:
  "(x = None \<Longrightarrow> framed f) \<Longrightarrow> (\<And>y. x = Some y \<Longrightarrow> framed (g y)) \<Longrightarrow>
   framed (\<lambda>st. case x of None \<Rightarrow> f st | Some y \<Rightarrow> g y st)"
  by (cases x) simp_all

lemma framed_case_kind:
  "framed a \<Longrightarrow> (\<And>i. framed (b i)) \<Longrightarrow> (\<And>v. framed (c v)) \<Longrightarrow>
   framed (\<lambda>st. case k of CodeGenerator \<Rightarrow> a st | ArrayInitCodeGenerator i \<Rightarrow> b i st
                 | StructuredBindingsCodeGenerator v \<Rightarrow> c v st)"
  by (cases k) simp_all

lemma framed_for_each:
  "(\<And>x. x \<in> set xs \<Longrightarrow> framed (f x)) \<Longrightarrow> framed (for_each f xs)"
proof (induction xs)
  case Nil
  have "for_each f [] = Some" by (rule ext) simp
  then show ?case by (simp add: framed_Some)
next
  case (Cons x xs)
  have "framed (\<lambda>st. Option.bind (f x st) (for_each f xs))"
    by (rule framed_bind) (simp_all add: Cons)
  then show ?case by (rule framed_eq [rotated]) simp
qed

lemma framed_ForEachArg:
  "(\<And>x. x \<in> set xs \<Longrightarrow> framed (f x)) \<Longrightarrow> framed (ForEachArg f xs)"
proof (cases xs)
  case Nil
  have "ForEachArg f [] = Some" by (rule ext) simp
  with Nil show ?thesis by (simp add: framed_Some)
next
  case (Cons x ys)
  assume fr: "\<And>x. x \<in> set xs \<Longrightarrow> framed (f x)"
  have "framed (\<lambda>st. Option.bind (f x st)
          (for_each (\<lambda>a st. Option.bind (call (Append '', '') st) (f a)) ys))"
    by (intro framed_bind framed_for_each framed_call) (simp_all add: fr Cons)
  then show ?thesis unfolding Cons by (rule framed_eq [rotated]) simp
qed

lemma framed_WrapInParensOrCurlys:
  "framed f \<Longrightarrow> framed (WrapInParensOrCurlys bk f sp)"
  unfolding WrapInParensOrCurlys_def [abs_def]
  by (intro framed_bind framed_if framed_call framed_Some)

lemma framed_null_checked:
  "(\<And>s. stmt = Some s \<Longrightarrow> framed (f s)) \<Longrightarrow> framed (null_checked f stmt)"
  unfolding null_checked_def [abs_def]
  by (intro framed_case_option framed_Some)

lemma framed_InsertSuffix: "framed (InsertSuffix type)"
  unfolding InsertSuffix_def [abs_def]
  by (intro framed_case_option framed_Some framed_call)

lemma framed_HandleCompoundStmt:
  "(\<And>item. item \<in> set body \<Longrightarrow> framed (f item)) \<Longrightarrow> framed (HandleCompoundStmt f body)"
  unfolding HandleCompoundStmt_def [abs_def]
  by (intro framed_for_each framed_bind framed_if framed_call framed_Some)

lemma framed_HandleLocalStaticNonTrivialClass:
  "framed (HandleLocalStaticNonTrivialClass h v)"
  unfolding HandleLocalStaticNonTrivialClass_def [abs_def] Let_def
  by (intro framed_bind framed_call)

lemma framed_InsertArg_binding:
  assumes "\<And>g e. e \<in> binding_exprs b \<Longrightarrow> framed (f g e)"
  shows "framed (InsertArg_binding f this tmp isRef b)"
  unfolding InsertArg_binding_def [abs_def]
  by (intro framed_bind framed_call framed_case_option framed_if framed_Some assms
      holdingVarOrMemberExpr_exprs getBinding_exprs)

lemma framed_InsertArg_DecompositionDecl:
  assumes "\<And>g e. init = Some e \<Longrightarrow> framed (f g e)"
    and "\<And>g b e. b \<in> set bs \<Longrightarrow> e \<in> binding_exprs b \<Longrightarrow> framed (f g e)"
  shows "framed (InsertArg_DecompositionDecl f h this v init bs)"
proof -
  have a: "framed (null_checked (f this) init)"
    by (rule framed_null_checked) (rule assms(1))
  have b: "framed (for_each (InsertArg_binding f this t r) bs)" for t r
    by (intro framed_for_each framed_InsertArg_binding) (rule assms(2))
  show ?thesis
    unfolding InsertArg_DecompositionDecl_def [abs_def] Let_def
    by (intro framed_case_option framed_bind framed_if framed_call framed_Some framed_Error
        framed_None a b)
qed

lemma HandleCharacterLiteral_append:
  "HandleCharacterLiteral p lit out = out @ HandleCharacterLiteral p lit []"
  by (cases "cl_kind lit") (simp_all add: HandleCharacterLiteral_def kind_prefix_def Let_def)

lemma framed_CharacterLiteral:
  "framed (\<lambda>st. Some (st\<lparr>written := HandleCharacterLiteral p lit (written st)\<rparr>))"
  unfolding framed_def
  by (simp add: extend_def init_state_def HandleCharacterLiteral_append [of p lit "written st" for st])

lemmas framed_intros =
  framed_bind framed_if framed_case_option framed_case_kind framed_call framed_Error
  framed_Some framed_None framed_for_each framed_ForEachArg framed_WrapInParensOrCurlys
  framed_null_checked framed_InsertSuffix framed_HandleCompoundStmt
  framed_HandleLocalStaticNonTrivialClass framed_InsertArg_DecompositionDecl
  framed_CharacterLiteral

lemma framed_InsertArg_all:
  "(\<forall>h g. framed (InsertArg_node h g s) \<and>
      (\<forall>item \<in> set (CompoundStmt_body s). framed (InsertArg_node h g item)))"
  "(\<forall>h g. framed (InsertArg_VarDecl h g vd))"
  "(\<forall>h g. framed (InsertArg_Decl_node h g d))"
  "(\<forall>h g. \<forall>e \<in> binding_exprs b. framed (InsertArg_node h g e))"
     apply (induction s and vd and d and b)
  apply ((intro allI conjI, rule framed_eq, rule InsertArg_node.simps InsertArg_VarDecl.simps InsertArg_Decl_node.simps,
      (unfold Let_def)?, (intro framed_intros)?; (auto split: option.splits)[1])+)
  apply (auto split: option.splits)
  done

lemma framed_InsertArg_node: "framed (InsertArg_node h g s)"
  using framed_InsertArg_all(1) by blast

lemma framed_InsertArg_VarDecl: "framed (InsertArg_VarDecl h g vd)"
  using framed_InsertArg_all(2) by blast

lemma framed_InsertArg_Decl_node: "framed (InsertArg_Decl_node h g d)"
  using framed_InsertArg_all(3) by blast

lemma framed_InsertArg_Stmt: "framed (InsertArg_Stmt h g stmt)"
  unfolding InsertArg_Stmt_def [abs_def]
  by (rule framed_null_checked) (rule framed_InsertArg_node)

lemma framed_DeclStmt: "framed (for_each (InsertArg_Decl_node h g) decls)"
  by (rule framed_for_each) (rule framed_InsertArg_Decl_node)

lemma framed_run: "framed f \<Longrightarrow> f init_state = Some r \<Longrightarrow> f st = Some (extend st r)"
  using framedD [of f st] by simp

lemma framed_fails: "framed f \<Longrightarrow> f init_state = None \<Longrightarrow> f st = None"
  using framedD [of f st] by simp

lemma InsertArg_Stmt_Some: "InsertArg_Stmt h g (Some s) st = InsertArg_node h g s st"
  by (simp add: InsertArg_Stmt_def null_checked_def)

lemma InsertArg_Stmt_None: "InsertArg_Stmt h g None st = Some st"
  by (simp add: InsertArg_Stmt_def null_checked_def)

lemma null_checked_InsertArg:
  "null_checked (InsertArg_node h g) stmt st = InsertArg_Stmt h g stmt st"
  by (simp add: InsertArg_Stmt_def)

section \<open>What a sequence of routines writes\<close>

text \<open>
  Routines run one after the other, as the statements of a routine's body are. When all of
  them are framed, what the sequence writes is what they write on their own, in sequence.
\<close>

primrec run_all :: "(gen_state \<Rightarrow> gen_state option) list \<Rightarrow> gen_state \<Rightarrow> gen_state option" where
  "run_all [] = Some"
| "run_all (f # fs) = (\<lambda>st. Option.bind (f st) (run_all fs))"

lemma emits_call: "emits (call c) = Some [c]"
  by (simp add: emits_def call_def init_state_def)

lemma emits_Some: "emits Some = Some []"
  by (simp add: emits_def init_state_def)


lemma emits_if: "emits (\<lambda>st. if c then f st else g st) = (if c then emits f else emits g)"
  by (simp add: emits_def)

lemma emits_bind:
  assumes "framed f" and "framed g"
  shows "emits (\<lambda>st. Option.bind (f st) g) = in_sequence [emits f, emits g]"
proof (cases "f init_state")
  case None
  then show ?thesis by (simp add: emits_def)
next
  case (Some a)
  from framedD [OF assms(2), of a] Some show ?thesis
    by (cases "g init_state") (simp_all add: emits_def extend_def)
qed

lemma in_sequence_Cons:
  "in_sequence (p # parts) = in_sequence [p, in_sequence parts]"
  by (cases p; cases "in_sequence parts") simp_all

lemma in_sequence_append:
  "in_sequence (ps @ qs) = in_sequence [in_sequence ps, in_sequence qs]"
proof (induction ps)
  case Nil
  show ?case by (cases "in_sequence qs") simp_all
next
  case (Cons p ps)
  then show ?case
    by (cases p; cases "in_sequence ps"; cases "in_sequence qs") simp_all
qed

lemma in_sequence_split:
  "in_sequence (Some (a # b # w) # parts) = in_sequence (Some [a] # Some (b # w) # parts)"
  by (cases "in_sequence parts") simp_all

lemma framed_run_all: "(\<And>f. f \<in> set fs \<Longrightarrow> framed f) \<Longrightarrow> framed (run_all fs)"
proof (induction fs)
  case Nil
  show ?case by (simp add: framed_Some)
next
  case (Cons f fs)
  have "framed (\<lambda>st. Option.bind (f st) (run_all fs))"
    by (rule framed_bind) (simp_all add: Cons)
  then show ?case by simp
qed

lemma emits_run_all:
  "(\<And>f. f \<in> set fs \<Longrightarrow> framed f) \<Longrightarrow> emits (run_all fs) = in_sequence (map emits fs)"
proof (induction fs)
  case Nil
  show ?case by (simp add: emits_Some)
next
  case (Cons f fs)
  have "emits (\<lambda>st. Option.bind (f st) (run_all fs)) = in_sequence [emits f, emits (run_all fs)]"
    by (rule emits_bind) (simp_all add: Cons.prems framed_run_all)
  with Cons show ?case by (simp add: in_sequence_Cons [of "emits f" "map emits fs"])
qed

lemma for_each_run_all: "for_each f xs = run_all (map f xs)"
proof (induction xs)
  case Nil
  show ?case by (rule ext) simp
next
  case (Cons x xs)
  show ?case by (rule ext) (simp add: Cons)
qed

lemma emits_for_each:
  "(\<And>x. x \<in> set xs \<Longrightarrow> framed (f x)) \<Longrightarrow>
   emits (for_each f xs) = in_sequence (map (\<lambda>x. emits (f x)) xs)"
  unfolding for_each_run_all
  by (subst emits_run_all) (auto simp: comp_def)

lemma written_framed:
  "framed f \<Longrightarrow> map_option written (f st) = map_option ((@) (written st)) (emits f)"
  using framedD [of f st]
  by (cases "f init_state") (simp_all add: emits_def extend_def)

lemma null_checked_eq: "null_checked (InsertArg_node h g) stmt = InsertArg_Stmt h g stmt"
  by (rule ext) (simp add: InsertArg_Stmt_def)

lemma emits_HandleCompoundStmt:
  assumes "\<And>item. item \<in> set body \<Longrightarrow> framed (f item)"
  shows "emits (HandleCompoundStmt f body) =
     in_sequence (map (\<lambda>item. in_sequence
        [emits (f item),
         Some (if \<not> isa_IfStmt item \<and> \<not> isa_ForStmt item \<and> \<not> isa_DeclStmt item
               then [AppendNewLine '';''] else [])]) body)"
proof -
  have one: "emits (\<lambda>st. Option.bind (f item st) (\<lambda>st.
                 if \<not> isa_IfStmt item \<and> \<not> isa_ForStmt item \<and> \<not> isa_DeclStmt item
                 then call (AppendNewLine '';'') st else Some st)) =
        in_sequence [emits (f item),
          Some (if \<not> isa_IfStmt item \<and> \<not> isa_ForStmt item \<and> \<not> isa_DeclStmt item
                then [AppendNewLine '';''] else [])]"
    if "item \<in> set body" for item
    by (subst emits_bind)
       (auto intro!: framed_if framed_call framed_Some assms that
          simp: emits_if emits_call emits_Some)
  have fr: "framed (\<lambda>st. Option.bind (f item st) (\<lambda>st.
                 if \<not> isa_IfStmt item \<and> \<not> isa_ForStmt item \<and> \<not> isa_DeclStmt item
                 then call (AppendNewLine '';'') st else Some st))"
    if "item \<in> set body" for item
    by (intro framed_bind framed_if framed_call framed_Some assms that)
  show ?thesis
    unfolding HandleCompoundStmt_def [abs_def]
    by (subst emits_for_each) (auto simp: fr one cong: map_cong)
qed

section \<open>Properties of the lowering routines\<close>

lemma emits_range_for_body:
  "emits (\<lambda>st. if \<not> isa_CompoundStmt body
                 then InsertArg_node h g body st
                 else HandleCompoundStmt (InsertArg_node h g) (CompoundStmt_body body) st) =
   (if isa_CompoundStmt body
    then in_sequence (map (\<lambda>item. in_sequence
            [emits (InsertArg_Stmt h g (Some item)),
             Some (if \<not> isa_IfStmt item \<and> \<not> isa_ForStmt item \<and> \<not> isa_DeclStmt item
                   then [AppendNewLine '';''] else [])])
          (CompoundStmt_body body))
    else emits (InsertArg_Stmt h g (Some body)))"
proof -
  have stmt: "InsertArg_Stmt h g (Some s) = InsertArg_node h g s" for s
    by (rule ext) (simp add: InsertArg_Stmt_Some)
  show ?thesis
    by (simp add: emits_if emits_HandleCompoundStmt framed_InsertArg_node stmt)
qed

lemma range_for_run_all:
  "InsertArg_node h g
     (CXXForRangeStmt (Some rangeStmt) (Some beginStmt) (Some endStmt) cond inc loopVariable body) =
   run_all
     [call OpenScope,
      InsertArg_Stmt h g (Some (DeclStmt rangeStmt)),
      InsertArg_Stmt h g (Some (DeclStmt beginStmt)),
      InsertArg_Stmt h g (Some (DeclStmt endStmt)),
      call (AppendNewLine []),
      call (Append ''for( ; ''),
      InsertArg_Stmt h g cond,
      call (Append ''; ''),
      InsertArg_Stmt h g inc,
      call (AppendNewLine '' )''),
      call OpenScope,
      InsertArg_VarDecl h g loopVariable,
      (\<lambda>st. if \<not> isa_CompoundStmt body
            then InsertArg_node h g body st
            else HandleCompoundStmt (InsertArg_node h g) (CompoundStmt_body body) st),
      (\<lambda>st. if \<not> isa_CompoundStmt body \<and> \<not> isa_NullStmt body
            then call (AppendNewLine '';'') st
            else Some st),
      call (CloseScope NoNewLineBefore_Yes),
      call (CloseScope NoNewLineBefore_No)]"
  by (rule ext) (simp add: null_checked_eq InsertArg_Stmt_Some)


lemma emits_range_for:
  "emits (InsertArg_Stmt h g
        (Some (CXXForRangeStmt (Some rangeStmt) (Some beginStmt) (Some endStmt)
                 cond inc loopVariable body))) =
     in_sequence
        [Some [OpenScope],
         emits (InsertArg_Stmt h g (Some (DeclStmt rangeStmt))),
         emits (InsertArg_Stmt h g (Some (DeclStmt beginStmt))),
         emits (InsertArg_Stmt h g (Some (DeclStmt endStmt))),
         Some [AppendNewLine []], Some [Append ''for( ; ''],
         emits (InsertArg_Stmt h g cond),
         Some [Append ''; ''],
         emits (InsertArg_Stmt h g inc),
         Some [AppendNewLine '' )''], Some [OpenScope],
         emits (InsertArg_VarDecl h g loopVariable),
         emits (\<lambda>st. if \<not> isa_CompoundStmt body
            then InsertArg_node h g body st
            else HandleCompoundStmt (InsertArg_node h g) (CompoundStmt_body body) st),
         emits (\<lambda>st. if \<not> isa_CompoundStmt body \<and> \<not> isa_NullStmt body
            then call (AppendNewLine '';'') st
            else Some st),
         Some [CloseScope NoNewLineBefore_Yes], Some [CloseScope NoNewLineBefore_No]]"
proof -
  let ?body = "\<lambda>st. if \<not> isa_CompoundStmt body
            then InsertArg_node h g body st
            else HandleCompoundStmt (InsertArg_node h g) (CompoundStmt_body body) st"
  let ?semi = "\<lambda>st. if \<not> isa_CompoundStmt body \<and> \<not> isa_NullStmt body
            then call (AppendNewLine '';'') st
            else Some st"
  have frb: "framed ?body"
    by (intro framed_if framed_InsertArg_node framed_HandleCompoundStmt)
  have frs: "framed ?semi"
    by (intro framed_if framed_call framed_Some)
  have stmt: "InsertArg_Stmt h g (Some s) = InsertArg_node h g s" for s
    by (rule ext) (simp add: InsertArg_Stmt_Some)
  have fr: "framed f" if "f \<in> set
     [call OpenScope,
      InsertArg_Stmt h g (Some (DeclStmt rangeStmt)),
      InsertArg_Stmt h g (Some (DeclStmt beginStmt)),
      InsertArg_Stmt h g (Some (DeclStmt endStmt)),
      call (AppendNewLine []),
      call (Append ''for( ; ''),
      InsertArg_Stmt h g cond,
      call (Append ''; ''),
      InsertArg_Stmt h g inc,
      call (AppendNewLine '' )''),
      call OpenScope,
      InsertArg_VarDecl h g loopVariable,
      ?body, ?semi,
      call (CloseScope NoNewLineBefore_Yes),
      call (CloseScope NoNewLineBefore_No)]" for f
    using that frb frs
    by (auto simp: framed_call framed_InsertArg_Stmt framed_InsertArg_VarDecl)
  show ?thesis
    unfolding stmt [of "CXXForRangeStmt (Some rangeStmt) (Some beginStmt) (Some endStmt)
                 cond inc loopVariable body"] range_for_run_all
    by (subst emits_run_all [OF fr]) (simp_all only: list.map emits_call)
qed

lemma in_sequence_tail:
  "in_sequence ps = in_sequence qs \<Longrightarrow> in_sequence (p # ps) = in_sequence (p # qs)"
  by (cases p) simp_all

lemma in_sequence_nested:
  "in_sequence (in_sequence ps # rest) = in_sequence (ps @ rest)"
  by (cases "in_sequence ps"; cases "in_sequence rest") (simp_all add: in_sequence_append)

lemma in_sequence_empty:
  "in_sequence (p # Some [] # rest) = in_sequence (p # rest)"
  by (cases p; cases "in_sequence rest") simp_all

text \<open>
  The lowering of a range-based \<^verbatim>\<open>for\<close> statement whose range, begin and end
  statements are present, as they are once the range is resolved. The routine appends to
  what was written before: the opening of the outer scope, the range, begin and end
  declarations, an empty line, the loop head \<open>for( ; cond; inc )\<close> with the statement's
  own condition and increment, the opening of the nested scope, the declaration of the loop
  variable, the body, and the closing of both scopes. A body that is a compound statement
  contributes its statements, each followed by a line with a semicolon unless it is an
  \<^verbatim>\<open>if\<close>, \<^verbatim>\<open>for\<close> or declaration statement, and no line after them; any other
  body is lowered as it is and followed by a line with a semicolon unless it is a null
  statement. The run ends in the routine exactly when it ends in one of these parts.
\<close>

lemma CXXForRangeStmt_lowering:
  "map_option written
     (InsertArg_Stmt h g
        (Some (CXXForRangeStmt (Some rangeStmt) (Some beginStmt) (Some endStmt)
                 cond inc loopVariable body)) st) =
   map_option ((@) (written st))
     (in_sequence
        [Some [OpenScope],
         emits (InsertArg_Stmt h g (Some (DeclStmt rangeStmt))),
         emits (InsertArg_Stmt h g (Some (DeclStmt beginStmt))),
         emits (InsertArg_Stmt h g (Some (DeclStmt endStmt))),
         Some [AppendNewLine [], Append ''for( ; ''],
         emits (InsertArg_Stmt h g cond),
         Some [Append ''; ''],
         emits (InsertArg_Stmt h g inc),
         Some [AppendNewLine '' )'', OpenScope],
         emits (InsertArg_VarDecl h g loopVariable),
         (if isa_CompoundStmt body
          then in_sequence (map (\<lambda>item. in_sequence
                  [emits (InsertArg_Stmt h g (Some item)),
                   Some (if \<not> isa_IfStmt item \<and> \<not> isa_ForStmt item \<and> \<not> isa_DeclStmt item
                         then [AppendNewLine '';''] else [])])
                (CompoundStmt_body body))
          else in_sequence
                 [emits (InsertArg_Stmt h g (Some body)),
                  Some (if \<not> isa_NullStmt body then [AppendNewLine '';''] else [])]),
         Some [CloseScope NoNewLineBefore_Yes, CloseScope NoNewLineBefore_No]])"
proof -
  have semi: "emits (\<lambda>st. if \<not> isa_CompoundStmt body \<and> \<not> isa_NullStmt body
            then call (AppendNewLine '';'') st
            else Some st) =
      Some (if \<not> isa_CompoundStmt body \<and> \<not> isa_NullStmt body then [AppendNewLine '';''] else [])"
    by (simp add: emits_if emits_call emits_Some)
  have parts: "emits (InsertArg_Stmt h g
        (Some (CXXForRangeStmt (Some rangeStmt) (Some beginStmt) (Some endStmt)
                 cond inc loopVariable body))) =
     in_sequence
        [Some [OpenScope],
         emits (InsertArg_Stmt h g (Some (DeclStmt rangeStmt))),
         emits (InsertArg_Stmt h g (Some (DeclStmt beginStmt))),
         emits (InsertArg_Stmt h g (Some (DeclStmt endStmt))),
         Some [AppendNewLine [], Append ''for( ; ''],
         emits (InsertArg_Stmt h g cond),
         Some [Append ''; ''],
         emits (InsertArg_Stmt h g inc),
         Some [AppendNewLine '' )'', OpenScope],
         emits (InsertArg_VarDecl h g loopVariable),
         (if isa_CompoundStmt body
          then in_sequence (map (\<lambda>item. in_sequence
                  [emits (InsertArg_Stmt h g (Some item)),
                   Some (if \<not> isa_IfStmt item \<and> \<not> isa_ForStmt item \<and> \<not> isa_DeclStmt item
                         then [AppendNewLine '';''] else [])])
                (CompoundStmt_body body))
          else in_sequence
                 [emits (InsertArg_Stmt h g (Some body)),
                  Some (if \<not> isa_NullStmt body then [AppendNewLine '';''] else [])]),
         Some [CloseScope NoNewLineBefore_Yes, CloseScope NoNewLineBefore_No]]"
    unfolding emits_range_for emits_range_for_body semi
    apply ((rule in_sequence_tail | subst in_sequence_split)+)
    apply (cases "isa_CompoundStmt body")
     apply (simp_all only: if_True if_False simp_thms in_sequence_empty in_sequence_nested append.simps)
     apply (simp only: in_sequence_append)
     apply (rule in_sequence_tail)
     apply simp
    apply ((rule in_sequence_tail | subst in_sequence_split)+)?
    apply (rule refl)
    done
  show ?thesis
    unfolding parts [symmetric]
    by (rule written_framed) (rule framed_InsertArg_Stmt)
qed

lemma CXXForRangeStmt_lowering_examples:
  "map_option written
     (InsertArg_Stmt example_helpers CodeGenerator (Some ex_range_for) init_state) =
   Some
     [OpenScope,
      Append [], Append ''int (&__range1)[3]'', Append '' = '', Append ''v'', AppendNewLine '';'',
      Append [], Append ''int * __begin1'', Append '' = '', Append ''__range1'', AppendNewLine '';'',
      Append [], Append ''int * __end1'', Append '' = '', Append ''__range1'', Append '' + '',
      Append ''3'', Append ''l'', AppendNewLine '';'',
      AppendNewLine [],
      Append ''for( ; '', Append ''__begin1'', Append '' != '', Append ''__end1'', Append ''; '',
      Append ''++'', Append ''__begin1'', AppendNewLine '' )'',
      OpenScope,
      Append [], Append ''int & e'', Append '' = '', Append ''*'', Append ''__begin1'',
      AppendNewLine '';'',
      Append ''sum'', Append '' += '', Append ''e'', AppendNewLine '';'',
      CloseScope NoNewLineBefore_Yes, CloseScope NoNewLineBefore_No] \<and>
   map_option written
     (InsertArg_Stmt example_helpers CodeGenerator (Some ex_range_for_braced) init_state) =
   Some
     [OpenScope,
      Append [], Append ''int (&__range1)[3]'', Append '' = '', Append ''v'', AppendNewLine '';'',
      Append [], Append ''int * __begin1'', Append '' = '', Append ''__range1'', AppendNewLine '';'',
      Append [], Append ''int * __end1'', Append '' = '', Append ''__range1'', Append '' + '',
      Append ''3'', Append ''l'', AppendNewLine '';'',
      AppendNewLine [],
      Append ''for( ; '', Append ''__begin1'', Append '' != '', Append ''__end1'', Append ''; '',
      Append ''++'', Append ''__begin1'', AppendNewLine '' )'',
      OpenScope,
      Append [], Append ''int & e'', Append '' = '', Append ''*'', Append ''__begin1'',
      AppendNewLine '';'',
      Append ''sum'', Append '' += '', Append ''e'', AppendNewLine '';'',
      Append ''if'', Append ''('', Append ''done'', Append '')'', Append '' '',
      Append ''break'', AppendNewLine '';'', AppendNewLine [],
      CloseScope NoNewLineBefore_Yes, CloseScope NoNewLineBefore_No]"
  unfolding ex_range_for_def ex_range_for_braced_def
  apply (subst CXXForRangeStmt_lowering)
  apply (subst CXXForRangeStmt_lowering)
  apply (simp add: emits_def InsertArg_Stmt_def null_checked_def call_def plain_var_def
      name_ref_def example_helpers_def init_state_def GetQualifiers_def InsertSuffix_def Let_def
      WrapInParensOrCurlys_def)
  done


text \<open>
  C3 at its failing input, a range-based \<^verbatim>\<open>for\<close> statement over a type-dependent
  range. Until the template is instantiated clang leaves its begin and end statements, its
  condition and its increment null. The routine hands the null begin statement to
  \<^verbatim>\<open>InsertArg(const DeclStmt*)\<close>, which dereferences it: the run ends after the range
  declaration and nothing of the loop is emitted, where the null condition and increment,
  which go through the dispatcher on statement pointers, would have been skipped. That
  type-dependent code reaches the generator shows in the source itself: it has a routine for
  \<^verbatim>\<open>UnresolvedLookupExpr\<close>, a node of templates that are not instantiated, and it tests
  the binding expression of a binding for null. The first part of the statement is the range
  declaration on its own, which is lowered without harm.
\<close>

theorem CXXForRangeStmt_dependent_range_aborts:
  "emits (InsertArg_Stmt example_helpers CodeGenerator (Some (DeclStmt
     [Decl_VarDecl (VarDecl
        ((plain_var ''auto &&'' ''__range1'' 3)\<lparr>vd_isReference := True\<rparr>)
        (Some (name_ref ''c'')) None)]))) =
     Some [Append [], Append ''auto && __range1'', Append '' = '', Append ''c'',
           AppendNewLine '';''] \<and>
   InsertArg_Stmt example_helpers CodeGenerator (Some ex_range_for_dependent) st = None"
  by (simp add: ex_range_for_dependent_def emits_def InsertArg_Stmt_def null_checked_def
      call_def plain_var_def name_ref_def init_state_def GetQualifiers_def)

lemma DecompositionDecl_run:
  assumes find: "FindDeclRef init = Some declName"
    and tmp: "tmp = tmpVarName h v declName"
    and ini: "InsertArg_Stmt h g init init_state = Some I"
    and bnd: "for_each (InsertArg_binding (InsertArg_node h) g tmp (vd_isReference v)) bs
                init_state = Some BS"
  shows "InsertArg_VarDecl h g (VarDecl v init (Some bs)) st =
           Some \<lparr>written = written st @ [Append (vd_typeNameAsParameter v tmp @ '' = '')]
                    @ written I @ [AppendNewLine '';''] @ written BS,
                 reported = reported st
                    @ (if declName = None then [''unknown decl'' @ [CHR 0x0A]] else [])
                    @ reported I @ reported BS\<rparr>"
proof -
  have frb: "framed (InsertArg_binding (InsertArg_node h) g tmp (vd_isReference v) b)" for b
    by (rule framed_InsertArg_binding) (rule framed_InsertArg_node)
  have frbs: "framed (for_each (InsertArg_binding (InsertArg_node h) g tmp (vd_isReference v)) bs)"
    by (rule framed_for_each) (rule frb)
  note run = framed_run [OF framed_InsertArg_Stmt ini] framed_run [OF frbs bnd]
  show ?thesis
    by (simp add: InsertArg_DecompositionDecl_def find tmp [symmetric] null_checked_InsertArg
        run call_def Error_def extend_def)
qed








text \<open>
  How a binding declaration refers to the temporary: the structured-bindings generator writes
  the name it was given after a name reference with an empty name, which is what clang gives the
  reference to the decomposed object. For a member of that object this is the empty name, the
  name of the temporary and the member access.
\<close>

lemma StructuredBindings_member_of_temporary:
  "dre_name d = [] \<Longrightarrow>
   emits (InsertArg_node h (StructuredBindingsCodeGenerator tmp)
            (MemberExpr (DeclRefExpr d) isArrow name)) =
     Some [Append [], Append tmp, Append ((if isArrow then ''->'' else ''.'') @ name)]"
  by (simp add: emits_def call_def init_state_def)


section \<open>Synthesized names\<close>

lemma to_string_not_Nil: "to_string n \<noteq> []"
  by (subst to_string.simps) simp

lemma digit_char_inj:
  assumes "a < 10" and "b < 10" and "char_of (48 + a) = (char_of (48 + b) :: char)"
  shows "a = (b::nat)"
proof -
  from assms(3)
  have "(of_char (char_of (48 + a) :: char) :: nat) = of_char (char_of (48 + b) :: char)"
    by simp
  then have "(48 + a) mod 256 = (48 + b) mod 256" by simp
  with assms(1,2) show ?thesis by simp
qed

lemma to_string_inj: "to_string n = to_string m \<Longrightarrow> n = m"
proof (induction n arbitrary: m rule: to_string.induct)
  case (1 n)
  show ?case
  proof (cases "n < 10")
    case True
    then have n: "to_string n = [char_of (48 + n)]"
      by (subst to_string.simps) simp
    show ?thesis
    proof (cases "m < 10")
      case mlt: True
      then have "to_string m = [char_of (48 + m)]"
        by (subst to_string.simps) simp
      with n "1.prems" have "char_of (48 + n) = (char_of (48 + m) :: char)" by simp
      with True mlt show ?thesis by (rule digit_char_inj)
    next
      case False
      then have "to_string m = to_string (m div 10) @ [char_of (48 + m mod 10)]"
        by (subst to_string.simps) simp
      with n "1.prems" have "to_string (m div 10) = []" by (simp add: Cons_eq_append_conv)
      with to_string_not_Nil show ?thesis by blast
    qed
  next
    case False
    then have n: "to_string n = to_string (n div 10) @ [char_of (48 + n mod 10)]"
      by (subst to_string.simps) simp
    show ?thesis
    proof (cases "m < 10")
      case True
      then have "to_string m = [char_of (48 + m)]"
        by (subst to_string.simps) simp
      with n "1.prems" have "to_string (n div 10) = []" by (simp add: append_eq_Cons_conv)
      with to_string_not_Nil show ?thesis by blast
    next
      case mge: False
      then have "to_string m = to_string (m div 10) @ [char_of (48 + m mod 10)]"
        by (subst to_string.simps) simp
      with n "1.prems" have eq: "to_string (n div 10) = to_string (m div 10)"
        and ch: "char_of (48 + n mod 10) = (char_of (48 + m mod 10) :: char)"
        by simp_all
      from "1.IH" [OF False eq] have d: "n div 10 = m div 10" .
      have "n mod 10 = m mod 10"
        by (rule digit_char_inj [OF _ _ ch]) simp_all
      with d show ?thesis by (metis div_mult_mod_eq)
    qed
  qed
qed

lemma funcPtrName_eq_iff:
  "funcPtrName v1 = funcPtrName v2 \<longleftrightarrow> loc_line (vd_locStart v1) = loc_line (vd_locStart v2)"
  by (auto simp: funcPtrName_def Let_def dest: to_string_inj)

text \<open>
  C9, as the code has it. The alias name of a function pointer variable is computed from the
  line of its declaration alone: two such variables get the same alias name exactly when they
  are declared on the same line, whatever their names and columns. The name of the temporary
  of a decomposition declaration is computed from the plain name of the reference found in
  the initializer, from whether that reference has a declaration and from the location of
  the decomposition; when no reference is found it is the same name for every decomposition
  declaration.
\<close>

theorem synthesized_names:
  "(funcPtrName v1 = funcPtrName v2 \<longleftrightarrow>
      loc_line (vd_locStart v1) = loc_line (vd_locStart v2)) \<and>
   (dre_plainName d1 = dre_plainName d2 \<and> dre_hasDecl d1 = dre_hasDecl d2 \<and>
    vd_locStart v1 = vd_locStart v2 \<longrightarrow>
      tmpVarName h v1 (Some d1) = tmpVarName h v2 (Some d2)) \<and>
   tmpVarName h v1 None = tmpVarName h v2 None"
  by (simp add: funcPtrName_eq_iff tmpVarName_def baseVarName_def Let_def)

section \<open>Evaluating the examples\<close>

lemma to_string_3: "to_string 3 = ''3''"
  by code_simp


lemma not_operator_p: "\<not> sublist ''operator'' ''p''"
  by code_simp




text \<open>
  C7 at its failing input. The search of the initializer reaches the null init statement of
  the \<^verbatim>\<open>for\<close> statement before any name reference and dereferences it: the run ends, no
  diagnostic is reported and nothing is written.
\<close>

theorem DecompositionDecl_null_child_aborts:
  "InsertArg_VarDecl example_helpers CodeGenerator ex_decomposition_null_child st = None"
  by (simp add: ex_decomposition_null_child_def InsertArg_DecompositionDecl_def)

text \<open>
  When the search finishes without a reference, the behaviour that C7 describes is what the
  code does: the error is reported, the temporary is named after the empty string and the
  declaration is lowered like any other.
\<close>

lemma DecompositionDecl_no_reference:
  assumes "FindDeclRef init = Some None"
    and "InsertArg_Stmt h g init init_state = Some I"
    and "for_each (InsertArg_binding (InsertArg_node h) g (BuildInternalVarName h [])
                     (vd_isReference v)) bs init_state = Some BS"
  shows "InsertArg_VarDecl h g (VarDecl v init (Some bs)) st =
           Some \<lparr>written = written st
                    @ [Append (vd_typeNameAsParameter v (BuildInternalVarName h []) @ '' = '')]
                    @ written I @ [AppendNewLine '';''] @ written BS,
                 reported = reported st @ [''unknown decl'' @ [CHR 0x0A]]
                    @ reported I @ reported BS\<rparr>"
proof -
  have tmp: "BuildInternalVarName h [] = tmpVarName h v None"
    by (simp add: tmpVarName_def baseVarName_def)
  from DecompositionDecl_run [OF assms(1) tmp assms(2) assms(3), of st]
  show ?thesis by simp
qed

lemma InsertArg_Stmt_null_is_noop: "InsertArg_Stmt h g None st = Some st"
  by (simp add: InsertArg_Stmt_def null_checked_def)

text \<open>
  C6 at its failing input: the declaration dispatcher on a null pointer ends the run, where the
  statement dispatcher returns without writing.
\<close>

theorem InsertArg_Decl_null_aborts: "InsertArg_Decl h g None st = None"
  by (simp add: InsertArg_Decl_def)

lemma guarded_construction_calls:
  "flag (after_calls n (guarded_construction h v)) (BuildInternalVarName h (vd_name v) @ ''B'') = (0 < n) \<and>
   constructions (after_calls n (guarded_construction h v)) (BuildInternalVarName h (vd_name v)) =
     (if n = 0 then 0 else 1)"
  by (induction n)
     (simp_all add: after_calls_def guarded_construction_def zero_initialized_def Let_def)

text \<open>
  C8. \<^verbatim>\<open>InsertArg(const VarDecl*)\<close> asks first whether the declaration is a
  decomposition declaration. In C++17, the language of the clang releases that the source
  is written against (it calls \<^verbatim>\<open>getLocStart\<close>), a decomposition declaration cannot be
  declared \<^verbatim>\<open>static\<close>, so a function-local static variable is a variable declaration
  without bindings. When \<^verbatim>\<open>IsTrivialStaticClassVarDecl\<close> holds
  for it, the routine appends: the declaration of the static guard, the declaration of the
  static character array sized with \<open>sizeof\<close> of the class, an empty line, the
  \<open>if\<close> on the negated guard, and in its scope one placement \<open>new\<close> into the array
  followed by the assignment of \<open>true\<close> to the guard. These lines are the text of
  \<open>guarded_construction\<close>, and however often the enclosing function is called, at most
  one object has been constructed in the array.
\<close>

theorem static_local_lowering:
  assumes "vd_isTrivialStaticClassVarDecl v"
  shows "InsertArg_VarDecl h g (VarDecl v init None) st =
     Some (st\<lparr>written := written st @
       [AppendNewLine (''static bool '' @ BuildInternalVarName h (vd_name v) @ ''B'' @ '';''),
        AppendNewLine (''static char '' @ BuildInternalVarName h (vd_name v)
                       @ ''[sizeof('' @ vd_recordName v @ '')];''),
        AppendNewLine [],
        AppendNewLine (''if( ! '' @ BuildInternalVarName h (vd_name v) @ ''B'' @ '' )''),
        OpenScope,
        AppendNewLine (''new (&'' @ BuildInternalVarName h (vd_name v) @ '') ''
                       @ vd_recordName v @ '';''),
        AppendNewLine (BuildInternalVarName h (vd_name v) @ ''B'' @ '' = true;''),
        CloseScope NoNewLineBefore_Yes,
        AppendNewLine []]\<rparr>) \<and>
     map_option written (InsertArg_VarDecl h g (VarDecl v init None) st) =
       Some (written st @ concat (map text_of (guarded_construction h v))) \<and>
     constructions (after_calls n (guarded_construction h v))
       (BuildInternalVarName h (vd_name v)) \<le> 1"
  using assms guarded_construction_calls [of n h v]
  by (simp add: HandleLocalStaticNonTrivialClass_def call_def Let_def guarded_construction_def)

theorem static_local_lowering_witness:
  "InsertArg_VarDecl example_helpers CodeGenerator ex_static_local init_state =
     Some \<lparr>written =
       [AppendNewLine ''static bool __sB;'',
        AppendNewLine ''static char __s[sizeof(Singleton)];'',
        AppendNewLine [],
        AppendNewLine ''if( ! __sB )'',
        OpenScope,
        AppendNewLine ''new (&__s) Singleton;'',
        AppendNewLine ''__sB = true;'',
        CloseScope NoNewLineBefore_Yes,
        AppendNewLine []], reported = []\<rparr> \<and>
   constructions (after_calls 3 (guarded_construction example_helpers (vd_info ex_static_local)))
     ''__s'' \<le> 1"
  unfolding ex_static_local_def
  using static_local_lowering
    [of "(plain_var ''Singleton'' ''s'' 7)
           \<lparr>vd_storageClass := SC_Static, vd_isTrivialStaticClassVarDecl := True,
            vd_recordName := ''Singleton''\<rparr>" example_helpers CodeGenerator None init_state 3]
  by (simp add: plain_var_def example_helpers_def init_state_def)

text \<open>
  Against C9 as stated: two function pointer variables with different names, types and
  columns on one line get the same alias name, and both declarations write a
  \<open>using\<close> line for that name.
\<close>

theorem funcPtrName_collision:
  "vd_name ex_funcptr_f \<noteq> vd_name ex_funcptr_g \<and>
   vd_locStart ex_funcptr_f \<noteq> vd_locStart ex_funcptr_g \<and>
   funcPtrName ex_funcptr_f = ''FuncPtr_3 '' \<and>
   funcPtrName ex_funcptr_g = ''FuncPtr_3 '' \<and>
   InsertArg_VarDecl example_helpers CodeGenerator (VarDecl ex_funcptr_f None None) init_state =
     Some \<lparr>written = [Append [], AppendNewLine ''using FuncPtr_3 = void (*)();'',
                       Append ''FuncPtr_3 f'', AppendNewLine '';''], reported = []\<rparr> \<and>
   InsertArg_VarDecl example_helpers CodeGenerator (VarDecl ex_funcptr_g None None) init_state =
     Some \<lparr>written = [Append [], AppendNewLine ''using FuncPtr_3 = int (*)(int);'',
                       Append ''FuncPtr_3 g'', AppendNewLine '';''], reported = []\<rparr>"
  by (simp add: ex_funcptr_f_def ex_funcptr_g_def funcPtrName_def plain_var_def call_def
      init_state_def GetQualifiers_def Let_def to_string_3)

theorem synthesized_names_witness:
  "funcPtrName ex_funcptr_f = funcPtrName ex_funcptr_g \<and>
   tmpVarName example_helpers (plain_var ''P'' [] 7)
     (Some \<lparr>dre_name = ''p'', dre_plainName = ''p'', dre_hasDecl = True\<rparr>) =
   tmpVarName example_helpers (plain_var ''Q'' [] 7)
     (Some \<lparr>dre_name = ''ns::p'', dre_plainName = ''p'', dre_hasDecl = True\<rparr>)"
  using synthesized_names
    [of ex_funcptr_f ex_funcptr_g
        "\<lparr>dre_name = ''p'', dre_plainName = ''p'', dre_hasDecl = True\<rparr>"
        "\<lparr>dre_name = ''ns::p'', dre_plainName = ''p'', dre_hasDecl = True\<rparr>"
        example_helpers]
    synthesized_names
    [of "plain_var ''P'' [] 7" "plain_var ''Q'' [] 7"
        "\<lparr>dre_name = ''p'', dre_plainName = ''p'', dre_hasDecl = True\<rparr>"
        "\<lparr>dre_name = ''ns::p'', dre_plainName = ''p'', dre_hasDecl = True\<rparr>"
        example_helpers]
  by (simp add: ex_funcptr_f_def ex_funcptr_g_def plain_var_def)

end
